theory Spec2Isabelle
  imports Complex_Main
begin

section \<open>Python built-ins used by the services\<close>

text \<open>
  Strings are lists of ASCII characters. Python integers are \<open>int\<close>, Python floats are
  idealised as \<open>real\<close> (the services only pass confidences through, use the literal
  \<open>0.85\<close>, and divide two counters). An exception is a pair of its class and \<open>str(e)\<close>.
\<close>

datatype exc_class =
  IndexError | ZeroDivisionError | AttributeError | TypeError | JSONDecodeError
| RecursionError | UnicodeDecodeError | OtherError

type_synonym py_exception = "exc_class \<times> string"

definition py_str :: "py_exception \<Rightarrow> string" where
  "py_str e = snd e"

text \<open>\<open>str.isspace\<close> on the ASCII range: TAB, LF, VT, FF, CR, FS, GS, RS, US and space.\<close>

definition py_isspace :: "char \<Rightarrow> bool" where
  "py_isspace c = ((of_char c :: nat) \<in> {9, 10, 11, 12, 13, 28, 29, 30, 31, 32})"

text \<open>\<open>str.split()\<close> with no argument: the maximal runs of non-whitespace, in order.\<close>

fun split_from :: "string \<Rightarrow> string \<Rightarrow> string list" where
  "split_from acc [] = (if acc = [] then [] else [acc])"
| "split_from acc (c # cs) =
     (if py_isspace c then (if acc = [] then split_from [] cs else acc # split_from [] cs)
      else split_from (acc @ [c]) cs)"

definition py_split :: "string \<Rightarrow> string list" where
  "py_split s = split_from [] s"

text \<open>\<open>str.strip()\<close> with no argument.\<close>

definition py_strip :: "string \<Rightarrow> string" where
  "py_strip s = rev (dropWhile py_isspace (rev (dropWhile py_isspace s)))"

text \<open>\<open>sep.join(xs)\<close>.\<close>

fun py_join :: "string \<Rightarrow> string list \<Rightarrow> string" where
  "py_join sep [] = []"
| "py_join sep [x] = x"
| "py_join sep (x # y # ys) = x @ sep @ py_join sep (y # ys)"

text \<open>\<open>str.lower()\<close> and \<open>str.upper()\<close> on ASCII letters; other characters stay.\<close>

definition lower_char :: "char \<Rightarrow> char" where
  "lower_char c =
     (case map_of (zip ''ABCDEFGHIJKLMNOPQRSTUVWXYZ'' ''abcdefghijklmnopqrstuvwxyz'') c of
        Some d \<Rightarrow> d | None \<Rightarrow> c)"

definition upper_char :: "char \<Rightarrow> char" where
  "upper_char c =
     (case map_of (zip ''abcdefghijklmnopqrstuvwxyz'' ''ABCDEFGHIJKLMNOPQRSTUVWXYZ'') c of
        Some d \<Rightarrow> d | None \<Rightarrow> c)"

definition py_lower :: "string \<Rightarrow> string" where
  "py_lower s = map lower_char s"

definition py_upper :: "string \<Rightarrow> string" where
  "py_upper s = map upper_char s"

text \<open>\<open>xs[i]\<close>: a negative index counts from the end, an index out of range raises.\<close>

definition py_index :: "'a list \<Rightarrow> int \<Rightarrow> py_exception + 'a" where
  "py_index xs i =
     (if 0 \<le> i \<and> i < int (length xs) then Inr (xs ! nat i)
      else if i < 0 \<and> - int (length xs) \<le> i then Inr (xs ! nat (int (length xs) + i))
      else Inl (IndexError, ''list index out of range''))"

text \<open>\<open>a % b\<close> on integers: the sign of the divisor, and an exception on zero.\<close>

definition py_mod :: "int \<Rightarrow> int \<Rightarrow> py_exception + int" where
  "py_mod a b =
     (if b = 0 then Inl (ZeroDivisionError, ''integer division or modulo by zero'')
      else Inr (a mod b))"

section \<open>The bridge service: data model\<close>

text \<open>A token dictionary \<open>{'word', 'lang', 'language', 'confidence'}\<close>.\<close>

record token =
  tok_word :: string
  tok_lang :: string
  tok_language :: string
  tok_confidence :: real

text \<open>
  A finished phrase dictionary. The value of \<open>'isUserLanguage'\<close> is kept by its truth
  value: the Python expression \<open>user_languages and ... in user_languages\<close> yields the
  falsy \<open>user_languages\<close> itself (\<open>None\<close> or \<open>[]\<close>) when no language was given.
\<close>

record phrase =
  ph_words :: "string list"
  ph_language :: string
  ph_startIndex :: int
  ph_text :: string
  ph_confidence :: real
  ph_endIndex :: int
  ph_isUserLanguage :: bool

text \<open>The phrase under construction: \<open>{'words', 'language', 'startIndex'}\<close>.\<close>

record current_phrase =
  cp_words :: "string list"
  cp_language :: string
  cp_startIndex :: int

text \<open>The \<open>context_optimization\<close> dictionary of a result.\<close>

record context_optimization_data =
  co_text_type :: string
  co_optimal_window_size :: int
  co_improvement_score :: real
  co_context_enhanced_confidence :: real
  co_optimization_applied :: bool

text \<open>The dataclass \<open>SwitchPrintResult\<close>, fields in declaration order.\<close>

record SwitchPrintResult =
  tokens :: "token list"
  phrases :: "phrase list"
  switch_points :: "int list"
  confidence :: real
  user_language_match :: bool
  detected_languages :: "string list"
  processing_time_ms :: real
  cache_hit :: bool
  calibrated_confidence :: real
  reliability_score :: real
  quality_assessment :: string
  calibration_method :: string
  context_optimization :: "context_optimization_data option"
  performance_mode :: string
  version :: string

text \<open>
  What the detectors return is read with \<open>getattr(obj, name, default)\<close>: every attribute
  may be absent, which is \<open>None\<close> here.
\<close>

record IntegratedResult =
  ir_original_confidence :: "real option"
  ir_calibrated_confidence :: "real option"
  ir_reliability_score :: "real option"
  ir_quality_assessment :: "string option"
  ir_calibration_method :: "string option"
  ir_detected_languages :: "string list option"
  ir_switch_points :: "int list option"

record OptimizationResult =
  or_text_type :: "string option"
  or_optimal_window_size :: "int option"
  or_improvement_score :: "real option"
  or_context_enhanced_confidence :: "real option"
  or_optimization_applied :: "bool option"

text \<open>
  One entry of a legacy switch-point list: a non-empty list or tuple whose first component
  is an index (the source's comment: \<open>(index, language)\<close>), an empty list or tuple, a bare
  integer, or anything else.
\<close>

datatype legacy_switch_point =
  SpTuple int "string list" | SpEmptyTuple | SpInt int | SpOther

record LegacyResult =
  lr_detected_languages :: "string list option"
  lr_confidence :: "real option"
  lr_switch_points :: "legacy_switch_point list option"

definition getattr :: "'a option \<Rightarrow> 'a \<Rightarrow> 'a" where
  "getattr attr dflt = (case attr of None \<Rightarrow> dflt | Some v \<Rightarrow> v)"

text \<open>Truth value of an optional list of user languages, and \<open>user_languages or []\<close>.\<close>

definition truthy :: "string list option \<Rightarrow> bool" where
  "truthy ul = (case ul of None \<Rightarrow> False | Some l \<Rightarrow> l \<noteq> [])"

definition or_empty :: "string list option \<Rightarrow> string list" where
  "or_empty ul = (case ul of None \<Rightarrow> [] | Some l \<Rightarrow> l)"

section \<open>The bridge service: result conversion\<close>

definition make_token :: "string \<Rightarrow> string \<Rightarrow> real \<Rightarrow> token" where
  "make_token w l c = \<lparr>tok_word = w, tok_lang = l, tok_language = l, tok_confidence = c\<rparr>"

text \<open>
  The token loop of \<open>_convert_v2_1_2_result\<close> for several languages and switch points:
  \<open>i\<close> is the index of the word at the head, \<open>cur\<close> is \<open>current_lang_idx\<close>.
\<close>

fun tokens_v2 ::
  "string list \<Rightarrow> int list \<Rightarrow> real \<Rightarrow> nat \<Rightarrow> int \<Rightarrow> string list \<Rightarrow> py_exception + token list"
where
  "tokens_v2 dl sps conf i cur [] = Inr []"
| "tokens_v2 dl sps conf i cur (w # ws) =
     (case (if sps \<noteq> [] \<and> int i \<in> set sps then py_mod (cur + 1) (int (length dl)) else Inr cur) of
        Inl e \<Rightarrow> Inl e
      | Inr cur' \<Rightarrow>
          (case (if dl \<noteq> [] then py_index dl cur' else Inr ''unknown'') of
             Inl e \<Rightarrow> Inl e
           | Inr l \<Rightarrow>
               (case tokens_v2 dl sps conf (Suc i) cur' ws of
                  Inl e \<Rightarrow> Inl e
                | Inr ts \<Rightarrow> Inr (make_token w l conf # ts))))"

text \<open>The token loop of \<open>_convert_legacy_result\<close> for several languages and switch points.\<close>

fun tokens_legacy ::
  "string list \<Rightarrow> int list \<Rightarrow> real \<Rightarrow> nat \<Rightarrow> int \<Rightarrow> string list \<Rightarrow> py_exception + token list"
where
  "tokens_legacy dl sps conf i cur [] = Inr []"
| "tokens_legacy dl sps conf i cur (w # ws) =
     (let cur' = (if int i \<in> set sps \<and> cur < int (length dl) - 1 then cur + 1 else cur) in
      case (if cur' < int (length dl) then py_index dl cur' else py_index dl 0) of
        Inl e \<Rightarrow> Inl e
      | Inr l \<Rightarrow>
          (case tokens_legacy dl sps conf (Suc i) cur' ws of
             Inl e \<Rightarrow> Inl e
           | Inr ts \<Rightarrow> Inr (make_token w l conf # ts)))"

text \<open>The other branch of both conversions: one language for every word.\<close>

definition tokens_single :: "string list \<Rightarrow> real \<Rightarrow> string list \<Rightarrow> token list" where
  "tokens_single dl conf ws =
     (let l = (if dl \<noteq> [] then hd dl else ''unknown'') in map (\<lambda>w. make_token w l conf) ws)"

text \<open>
  Closing a phrase (the \<open>current_phrase.update\<close> of both conversions); membership of the
  language in \<open>user_languages\<close> is Python's \<open>in\<close>, equality of strings.
\<close>

definition finalize_phrase :: "string list option \<Rightarrow> real \<Rightarrow> current_phrase \<Rightarrow> phrase" where
  "finalize_phrase ul conf cp =
     \<lparr>ph_words = cp_words cp,
      ph_language = cp_language cp,
      ph_startIndex = cp_startIndex cp,
      ph_text = py_join '' '' (cp_words cp),
      ph_confidence = conf,
      ph_endIndex = cp_startIndex cp + int (length (cp_words cp)) - 1,
      ph_isUserLanguage = (truthy ul \<and> cp_language cp \<in> set (or_empty ul))\<rparr>"

text \<open>
  The loop \<open>for i in range(1, len(tokens))\<close> of both conversions, followed by the closing
  of the last phrase; \<open>i\<close> is the index of the token at the head.
\<close>

fun group_phrases ::
  "string list option \<Rightarrow> real \<Rightarrow> current_phrase \<Rightarrow> nat \<Rightarrow> token list \<Rightarrow> phrase list"
where
  "group_phrases ul conf cp i [] = [finalize_phrase ul conf cp]"
| "group_phrases ul conf cp i (t # ts) =
     (if tok_lang t = cp_language cp
      then group_phrases ul conf (cp\<lparr>cp_words := cp_words cp @ [tok_word t]\<rparr>) (Suc i) ts
      else finalize_phrase ul conf cp #
           group_phrases ul conf
             \<lparr>cp_words = [tok_word t], cp_language = tok_lang t, cp_startIndex = int i\<rparr>
             (Suc i) ts)"

definition make_phrases :: "string list option \<Rightarrow> real \<Rightarrow> token list \<Rightarrow> phrase list" where
  "make_phrases ul conf ts =
     (case ts of
        [] \<Rightarrow> []
      | t # rest \<Rightarrow>
          group_phrases ul conf
            \<lparr>cp_words = [tok_word t], cp_language = tok_lang t, cp_startIndex = 0\<rparr> 1 rest)"

text \<open>The result-level user-language match of both conversions.\<close>

definition language_match :: "string list option \<Rightarrow> string list \<Rightarrow> bool" where
  "language_match ul dl =
     (if truthy ul \<and> dl \<noteq> []
      then list_ex (\<lambda>u. py_lower u \<in> set (map py_lower dl)) (or_empty ul)
      else False)"

definition make_context_optimization ::
  "OptimizationResult option \<Rightarrow> real \<Rightarrow> context_optimization_data option"
where
  "make_context_optimization opt calibrated =
     (case opt of
        None \<Rightarrow> None
      | Some r \<Rightarrow>
          Some \<lparr>co_text_type = getattr (or_text_type r) ''unknown'',
                co_optimal_window_size = getattr (or_optimal_window_size r) 0,
                co_improvement_score = getattr (or_improvement_score r) 0,
                co_context_enhanced_confidence =
                  getattr (or_context_enhanced_confidence r) calibrated,
                co_optimization_applied = getattr (or_optimization_applied r) False\<rparr>)"

text \<open>
  \<open>_convert_v2_1_2_result\<close>. The context result is never read and is left out; \<open>ver\<close> is
  the module constant \<open>SWITCHPRINT_VERSION\<close>; \<open>start_time\<close> and \<open>now\<close> are the two readings
  of the clock.
\<close>

definition convert_v2_1_2_result ::
  "string \<Rightarrow> IntegratedResult \<Rightarrow> OptimizationResult option \<Rightarrow> string \<Rightarrow> string list option \<Rightarrow>
   real \<Rightarrow> real \<Rightarrow> string \<Rightarrow> py_exception + SwitchPrintResult"
where
  "convert_v2_1_2_result ver sp_result optimization_result text user_languages
       start_time now perf_mode =
     (let words = py_split text;
          original_confidence = getattr (ir_original_confidence sp_result) 0.5;
          calibrated = getattr (ir_calibrated_confidence sp_result) original_confidence;
          reliability = getattr (ir_reliability_score sp_result) 0;
          quality = getattr (ir_quality_assessment sp_result) ''unknown'';
          method = getattr (ir_calibration_method sp_result) ''none'';
          dl = getattr (ir_detected_languages sp_result) [''unknown''];
          sps = getattr (ir_switch_points sp_result) []
      in case (if 1 < length dl \<and> sps \<noteq> [] then tokens_v2 dl sps calibrated 0 0 words
               else Inr (tokens_single dl calibrated words)) of
           Inl e \<Rightarrow> Inl e
         | Inr toks \<Rightarrow>
             Inr \<lparr>tokens = toks,
                  phrases = make_phrases user_languages calibrated toks,
                  switch_points = sps,
                  confidence = original_confidence,
                  user_language_match = language_match user_languages dl,
                  detected_languages = dl,
                  processing_time_ms = (now - start_time) * 1000,
                  cache_hit = False,
                  calibrated_confidence = calibrated,
                  reliability_score = reliability,
                  quality_assessment = quality,
                  calibration_method = method,
                  context_optimization = make_context_optimization optimization_result calibrated,
                  performance_mode = perf_mode,
                  version = ver\<rparr>)"

text \<open>The switch points \<open>_convert_legacy_result\<close> reads off the legacy list.\<close>

fun legacy_switch_points :: "legacy_switch_point list \<Rightarrow> int list" where
  "legacy_switch_points [] = []"
| "legacy_switch_points (SpTuple i rest # sps) = i # legacy_switch_points sps"
| "legacy_switch_points (SpInt i # sps) = i # legacy_switch_points sps"
| "legacy_switch_points (SpEmptyTuple # sps) = legacy_switch_points sps"
| "legacy_switch_points (SpOther # sps) = legacy_switch_points sps"

definition convert_legacy_result ::
  "LegacyResult \<Rightarrow> string \<Rightarrow> string list option \<Rightarrow> real \<Rightarrow> real \<Rightarrow>
   py_exception + SwitchPrintResult"
where
  "convert_legacy_result sp_result text user_languages start_time now =
     (let words = py_split text;
          dl = getattr (lr_detected_languages sp_result) [''unknown''];
          conf = getattr (lr_confidence sp_result) 0.5;
          sps = (case lr_switch_points sp_result of
                   None \<Rightarrow> []
                 | Some legacy \<Rightarrow> legacy_switch_points legacy)
      in case (if 1 < length dl \<and> sps \<noteq> [] then tokens_legacy dl sps conf 0 0 words
               else Inr (tokens_single dl conf words)) of
           Inl e \<Rightarrow> Inl e
         | Inr toks \<Rightarrow>
             Inr \<lparr>tokens = toks,
                  phrases = make_phrases user_languages conf toks,
                  switch_points = sps,
                  confidence = conf,
                  user_language_match = language_match user_languages dl,
                  detected_languages = dl,
                  processing_time_ms = (now - start_time) * 1000,
                  cache_hit = False,
                  calibrated_confidence = conf,
                  reliability_score = 0,
                  quality_assessment = ''legacy'',
                  calibration_method = ''none'',
                  context_optimization = None,
                  performance_mode = ''legacy'',
                  version = ''legacy''\<rparr>)"

section \<open>The bridge service: the mock result\<close>

text \<open>
  \<open>_get_mock_result\<close>. The fields the constructor call leaves out take the defaults of
  the dataclass; the parameter \<open>error\<close> is accepted and never read.
\<close>

definition get_mock_result ::
  "string \<Rightarrow> string list option \<Rightarrow> real \<Rightarrow> real \<Rightarrow> string option \<Rightarrow>
   py_exception + SwitchPrintResult"
where
  "get_mock_result text user_languages start_time now error =
     (let words = py_split text
      in case (if \<not> truthy user_languages then Inr ''english''
               else py_index (or_empty user_languages) 0) of
           Inl e \<Rightarrow> Inl e
         | Inr mock_lang \<Rightarrow>
             Inr \<lparr>tokens = map (\<lambda>w. make_token w mock_lang 0.85) words,
                  phrases =
                    [\<lparr>ph_words = words,
                      ph_language = mock_lang,
                      ph_startIndex = 0,
                      ph_text = text,
                      ph_confidence = 0.85,
                      ph_endIndex = int (length words) - 1,
                      ph_isUserLanguage = True\<rparr>],
                  switch_points = [],
                  confidence = 0.85,
                  user_language_match = True,
                  detected_languages = [mock_lang],
                  processing_time_ms = (now - start_time) * 1000,
                  cache_hit = False,
                  calibrated_confidence = 0,
                  reliability_score = 0,
                  quality_assessment = ''unknown'',
                  calibration_method = ''none'',
                  context_optimization = None,
                  performance_mode = ''balanced'',
                  version = ''2.1.2''\<rparr>)"

section \<open>The bridge service: state, cache and orchestration\<close>

text \<open>
  A Python \<open>dict\<close> keeps its keys in insertion order: an association list with distinct
  keys, oldest first. Assigning to a present key keeps its place; a new key goes last.
\<close>

type_synonym 'v py_dict = "(string \<times> 'v) list"

definition dict_get :: "'v py_dict \<Rightarrow> string \<Rightarrow> 'v option" where
  "dict_get d k = map_of d k"

fun dict_set :: "'v py_dict \<Rightarrow> string \<Rightarrow> 'v \<Rightarrow> 'v py_dict" where
  "dict_set [] k v = [(k, v)]"
| "dict_set ((k', v') # d) k v = (if k' = k then (k, v) # d else (k', v') # dict_set d k v)"

definition dict_del :: "'v py_dict \<Rightarrow> string \<Rightarrow> 'v py_dict" where
  "dict_del d k = filter (\<lambda>kv. fst kv \<noteq> k) d"

text \<open>
  The detectors are the external library's objects; each call is a function of its
  arguments that returns or raises. The context detector's and the dashboard's values are
  never read, so only their outcome is kept. \<open>switchprint_available\<close> is the module
  constant \<open>SWITCHPRINT_AVAILABLE\<close>.
\<close>

record SwitchPrintService =
  integrated_detector :: "(string \<Rightarrow> string list option \<Rightarrow> py_exception + IntegratedResult) option"
  context_detector :: "(string \<Rightarrow> py_exception + unit) option"
  metrics_dashboard :: "(string \<Rightarrow> py_exception + unit) option"
  context_optimizer :: "(string \<Rightarrow> py_exception + OptimizationResult option) option"
  legacy_detector :: "(string \<Rightarrow> string list option \<Rightarrow> py_exception + LegacyResult) option"
  fasttext_detector :: "(string \<Rightarrow> string list option \<Rightarrow> py_exception + LegacyResult) option"
  cache :: "SwitchPrintResult py_dict"
  cache_hits :: int
  total_requests :: int
  switchprint_available :: bool

definition SWITCHPRINT_VERSION :: "SwitchPrintService \<Rightarrow> string" where
  "SWITCHPRINT_VERSION self = (if switchprint_available self then ''2.1.2'' else ''unavailable'')"

definition make_cache_key :: "string \<Rightarrow> string list option \<Rightarrow> string \<Rightarrow> string" where
  "make_cache_key text user_languages perf_mode =
     ''v2.1.2:'' @ text @ '':'' @ py_join '','' (or_empty user_languages) @ '':'' @ perf_mode"

text \<open>\<open>_fallback_analysis\<close>: the legacy detector, then the mock result.\<close>

definition fallback_analysis ::
  "SwitchPrintService \<Rightarrow> string \<Rightarrow> string list option \<Rightarrow> real \<Rightarrow> real \<Rightarrow> bool \<Rightarrow>
   py_exception + SwitchPrintResult"
where
  "fallback_analysis self text user_languages start_time now fast_mode =
     (case legacy_detector self of
        None \<Rightarrow> get_mock_result text user_languages start_time now None
      | Some legacy \<Rightarrow>
          (let detector = (case (if fast_mode then fasttext_detector self else None) of
                             Some fast \<Rightarrow> fast | None \<Rightarrow> legacy)
           in case (case detector text user_languages of
                      Inl e \<Rightarrow> Inl e
                    | Inr sp_result \<Rightarrow>
                        convert_legacy_result sp_result text user_languages start_time now) of
                Inl e \<Rightarrow> get_mock_result text user_languages start_time now (Some (py_str e))
              | Inr result \<Rightarrow> Inr result))"

text \<open>
  The store at the end of the primary path: \<open>self.cache[cache_key] = result\<close>, then the
  size limit, which deletes the first hundred keys of the dictionary one by one.
\<close>

definition cache_store ::
  "SwitchPrintResult py_dict \<Rightarrow> string \<Rightarrow> SwitchPrintResult \<Rightarrow> SwitchPrintResult py_dict"
where
  "cache_store c k result =
     (let c1 = dict_set c k result
      in if 1000 < length c1 then foldl dict_del c1 (take 100 (map fst c1)) else c1)"

text \<open>
  An enrichment stage in its own \<open>try\<close>: absent, or raising, gives \<open>None\<close>.
\<close>

definition run_optimizer ::
  "SwitchPrintService \<Rightarrow> string \<Rightarrow> OptimizationResult option"
where
  "run_optimizer self text =
     (case context_optimizer self of
        None \<Rightarrow> None
      | Some opt \<Rightarrow> (case opt text of Inl e \<Rightarrow> None | Inr r \<Rightarrow> r))"

text \<open>
  The body of the \<open>try\<close> of \<open>analyze_text\<close>, for a present primary detector: the value is
  the result with the service after the store, or the exception that leaves the block.
  The context detector and the dashboard are called inside their own \<open>try\<close> and their
  values dropped, so neither outcome changes what follows.
\<close>

definition primary_analysis ::
  "SwitchPrintService \<Rightarrow> (string \<Rightarrow> string list option \<Rightarrow> py_exception + IntegratedResult) \<Rightarrow>
   string \<Rightarrow> string \<Rightarrow> string list option \<Rightarrow> real \<Rightarrow> real \<Rightarrow> bool \<Rightarrow> string \<Rightarrow>
   py_exception + (SwitchPrintResult \<times> SwitchPrintService)"
where
  "primary_analysis self detector cache_key text user_languages start_time now use_cache perf_mode =
     (case detector text user_languages of
        Inl e \<Rightarrow> Inl e
      | Inr sp_result \<Rightarrow>
          (let context_outcome = (case context_detector self of
                                    None \<Rightarrow> None | Some ctx \<Rightarrow> Some (ctx text));
               optimization_result = run_optimizer self text;
               dashboard_outcome = (case metrics_dashboard self of
                                      None \<Rightarrow> None | Some dash \<Rightarrow> Some (dash text))
           in case convert_v2_1_2_result (SWITCHPRINT_VERSION self) sp_result
                     optimization_result text user_languages start_time now perf_mode of
                Inl e \<Rightarrow> Inl e
              | Inr result \<Rightarrow>
                  Inr (result,
                       if use_cache
                       then self\<lparr>cache := cache_store (cache self) cache_key result\<rparr>
                       else self)))"

text \<open>
  \<open>analyze_text\<close>. On a hit the stored object itself is changed and returned, so the
  dictionary holds the changed result afterwards.
\<close>

definition analyze_text ::
  "SwitchPrintService \<Rightarrow> real \<Rightarrow> real \<Rightarrow> string \<Rightarrow> string list option \<Rightarrow> bool \<Rightarrow> bool \<Rightarrow> string \<Rightarrow>
   py_exception + (SwitchPrintResult \<times> SwitchPrintService)"
where
  "analyze_text self0 start_time now text user_languages use_cache fast_mode perf_mode =
     (let self = self0\<lparr>total_requests := total_requests self0 + 1\<rparr>;
          cache_key = make_cache_key text user_languages perf_mode
      in case (if use_cache then dict_get (cache self) cache_key else None) of
           Some stored \<Rightarrow>
             (let result = stored\<lparr>cache_hit := True,
                                  processing_time_ms := (now - start_time) * 1000\<rparr>
              in Inr (result,
                      self\<lparr>cache_hits := cache_hits self + 1,
                           cache := dict_set (cache self) cache_key result\<rparr>))
         | None \<Rightarrow>
             (case integrated_detector self of
                None \<Rightarrow>
                  (case fallback_analysis self text user_languages start_time now fast_mode of
                     Inl e \<Rightarrow> Inl e
                   | Inr result \<Rightarrow> Inr (result, self))
              | Some detector \<Rightarrow>
                  (case primary_analysis self detector cache_key text user_languages
                          start_time now use_cache perf_mode of
                     Inr out \<Rightarrow> Inr out
                   | Inl e \<Rightarrow>
                       (case fallback_analysis self text user_languages start_time now fast_mode of
                          Inl e' \<Rightarrow> Inl e'
                        | Inr result \<Rightarrow> Inr (result, self)))))"

text \<open>\<open>a / b\<close> on integers, \<open>get_cache_stats\<close> and \<open>clear_cache\<close>.\<close>

definition py_truediv :: "int \<Rightarrow> int \<Rightarrow> py_exception + real" where
  "py_truediv a b =
     (if b = 0 then Inl (ZeroDivisionError, ''division by zero'')
      else Inr (real_of_int a / real_of_int b))"

record cache_stats =
  cs_total_requests :: int
  cs_cache_hits :: int
  cs_cache_size :: int
  cs_hit_rate :: real
  cs_available :: bool

definition get_cache_stats :: "SwitchPrintService \<Rightarrow> py_exception + cache_stats" where
  "get_cache_stats self =
     (case py_truediv (cache_hits self) (max (total_requests self) 1) of
        Inl e \<Rightarrow> Inl e
      | Inr rate \<Rightarrow>
          Inr \<lparr>cs_total_requests = total_requests self,
               cs_cache_hits = cache_hits self,
               cs_cache_size = int (length (cache self)),
               cs_hit_rate = rate,
               cs_available = switchprint_available self\<rparr>)"

definition clear_cache :: "SwitchPrintService \<Rightarrow> SwitchPrintService" where
  "clear_cache self = self\<lparr>cache := []\<rparr>"

section \<open>The FastText worker: language names and codes\<close>

definition languages_map :: "(string \<times> string) list" where
  "languages_map =
     [(''english'', ''en''), (''spanish'', ''es''), (''hindi'', ''hi''),
      (''mandarin'', ''zh''), (''chinese'', ''zh''), (''french'', ''fr''),
      (''arabic'', ''ar''), (''portuguese'', ''pt''), (''russian'', ''ru''),
      (''japanese'', ''ja''), (''german'', ''de''), (''korean'', ''ko''),
      (''italian'', ''it''), (''dutch'', ''nl''), (''swedish'', ''sv''),
      (''norwegian'', ''no''), (''tagalog'', ''tl''), (''urdu'', ''ur''),
      (''bengali'', ''bn''), (''vietnamese'', ''vi''), (''turkish'', ''tr''),
      (''polish'', ''pl''), (''ukrainian'', ''uk''), (''czech'', ''cs''),
      (''greek'', ''el''), (''hebrew'', ''he''), (''thai'', ''th''),
      (''romanian'', ''ro''), (''hungarian'', ''hu''), (''finnish'', ''fi''),
      (''bulgarian'', ''bg''), (''croatian'', ''hr''), (''slovak'', ''sk''),
      (''lithuanian'', ''lt''), (''latvian'', ''lv''), (''estonian'', ''et''),
      (''slovenian'', ''sl''), (''macedonian'', ''mk''), (''albanian'', ''sq''),
      (''serbian'', ''sr''), (''bosnian'', ''bs''), (''montenegrin'', ''cnr''),
      (''maltese'', ''mt'')]"

definition code_to_name_map :: "(string \<times> string) list" where
  "code_to_name_map =
     [(''en'', ''English''), (''es'', ''Spanish''), (''hi'', ''Hindi''),
      (''zh'', ''Chinese''), (''fr'', ''French''), (''ar'', ''Arabic''),
      (''pt'', ''Portuguese''), (''ru'', ''Russian''), (''ja'', ''Japanese''),
      (''de'', ''German''), (''ko'', ''Korean''), (''it'', ''Italian''),
      (''nl'', ''Dutch''), (''sv'', ''Swedish''), (''no'', ''Norwegian''),
      (''tl'', ''Tagalog''), (''ur'', ''Urdu''), (''bn'', ''Bengali''),
      (''vi'', ''Vietnamese''), (''tr'', ''Turkish''), (''pl'', ''Polish''),
      (''uk'', ''Ukrainian''), (''cs'', ''Czech''), (''el'', ''Greek''),
      (''he'', ''Hebrew''), (''th'', ''Thai''), (''ro'', ''Romanian''),
      (''hu'', ''Hungarian''), (''fi'', ''Finnish''), (''bg'', ''Bulgarian''),
      (''hr'', ''Croatian''), (''sk'', ''Slovak''), (''lt'', ''Lithuanian''),
      (''lv'', ''Latvian''), (''et'', ''Estonian''), (''sl'', ''Slovenian''),
      (''mk'', ''Macedonian''), (''sq'', ''Albanian''), (''sr'', ''Serbian''),
      (''bs'', ''Bosnian''), (''mt'', ''Maltese'')]"

text \<open>\<open>_normalize_language\<close>: \<open>lang_lower[:2]\<close> is the default of the lookup.\<close>

definition normalize_language :: "string \<Rightarrow> string" where
  "normalize_language lang =
     (let lang_lower = py_strip (py_lower lang)
      in case map_of languages_map lang_lower of Some code \<Rightarrow> code | None \<Rightarrow> take 2 lang_lower)"

text \<open>\<open>_code_to_name\<close>.\<close>

definition code_to_name :: "string \<Rightarrow> string" where
  "code_to_name code =
     (case map_of code_to_name_map code of Some name \<Rightarrow> name | None \<Rightarrow> py_upper code)"

text \<open>
  \<open>s.replace(old, new)\<close> for a non-empty \<open>old\<close>, left to right without overlap;
  \<open>skip\<close> counts the characters of the last match still to pass. (The source never
  replaces the empty string, and this definition leaves the text unchanged there.)
\<close>

fun replace_from :: "nat \<Rightarrow> string \<Rightarrow> string \<Rightarrow> string \<Rightarrow> string" where
  "replace_from skip old new [] = []"
| "replace_from skip old new (c # cs) =
     (if 0 < skip then replace_from (skip - 1) old new cs
      else if old \<noteq> [] \<and> take (length old) (c # cs) = old
           then new @ replace_from (length old - 1) old new cs
           else c # replace_from 0 old new cs)"

definition py_replace :: "string \<Rightarrow> string \<Rightarrow> string \<Rightarrow> string" where
  "py_replace old new s = replace_from 0 old new s"

section \<open>The FastText worker: requests and detection\<close>

text \<open>What \<open>json.loads\<close> returns.\<close>

datatype json =
  JNull | JBool bool | JInt int | JFloat real | JStr string | JArr "json list"
| JObj "(string \<times> json) list"

fun json_truthy :: "json \<Rightarrow> bool" where
  "json_truthy JNull = False"
| "json_truthy (JBool b) = b"
| "json_truthy (JInt i) = (i \<noteq> 0)"
| "json_truthy (JFloat r) = (r \<noteq> 0)"
| "json_truthy (JStr s) = (s \<noteq> [])"
| "json_truthy (JArr xs) = (xs \<noteq> [])"
| "json_truthy (JObj kvs) = (kvs \<noteq> [])"

fun type_name :: "json \<Rightarrow> string" where
  "type_name JNull = ''NoneType''"
| "type_name (JBool b) = ''bool''"
| "type_name (JInt i) = ''int''"
| "type_name (JFloat r) = ''float''"
| "type_name (JStr s) = ''str''"
| "type_name (JArr xs) = ''list''"
| "type_name (JObj kvs) = ''dict''"

definition no_attribute :: "json \<Rightarrow> string \<Rightarrow> py_exception" where
  "no_attribute v attr =
     (AttributeError,
      [CHR 0x27] @ type_name v @ [CHR 0x27] @ '' object has no attribute '' @
      [CHR 0x27] @ attr @ [CHR 0x27])"

text \<open>\<open>for lang in user_languages\<close>: what the loop ranges over, or the \<open>TypeError\<close>.\<close>

fun py_iter :: "json \<Rightarrow> py_exception + json list" where
  "py_iter (JArr xs) = Inr xs"
| "py_iter (JStr s) = Inr (map (\<lambda>c. JStr [c]) s)"
| "py_iter (JObj kvs) = Inr (map (\<lambda>kv. JStr (fst kv)) kvs)"
| "py_iter v = Inl (TypeError, [CHR 0x27] @ type_name v @ [CHR 0x27] @ '' object is not iterable'')"

text \<open>\<open>[self._normalize_language(lang) for lang in ...]\<close>: \<open>lang.lower()\<close> needs a string.\<close>

fun normalize_all :: "json list \<Rightarrow> py_exception + string list" where
  "normalize_all [] = Inr []"
| "normalize_all (JStr lang # rest) =
     (case normalize_all rest of Inl e \<Rightarrow> Inl e | Inr codes \<Rightarrow> Inr (normalize_language lang # codes))"
| "normalize_all (v # rest) = Inl (no_attribute v ''lower'')"

text \<open>
  \<open>model.predict(text, k)\<close> of the loaded model: the labels and their confidences, or an
  exception. The worker holds the model and its path, both \<open>None\<close> before \<open>initialize\<close>.
\<close>

type_synonym fasttext_model = "string \<Rightarrow> nat \<Rightarrow> py_exception + (string list \<times> real list)"

record FastTextWorker =
  model :: "fasttext_model option"
  model_path :: "string option"

record detected_language =
  dl_language :: string
  dl_confidence :: real
  dl_name :: string

record processing_info =
  pr_timeMs :: real
  pr_engine :: string
  pr_modelPath :: "string option"
  pr_tokensPerSecond :: int

record detection =
  det_tokens :: "token list"
  det_phrases :: "phrase list"
  det_switchPoints :: "int list"
  det_confidence :: real
  det_userLanguageMatch :: bool
  det_detectedLanguages :: "string list"
  det_processing :: processing_info

text \<open>The dictionaries the worker prints.\<close>

datatype response =
  Ready "string option" | ErrorResponse string | DetectionResponse detection

text \<open>
  \<open>_create_phrase\<close>. The average divides by the number of tokens and the language is
  read off the first one, so an empty list raises.
\<close>

definition create_phrase :: "token list \<Rightarrow> py_exception + phrase" where
  "create_phrase toks =
     (let words = map tok_word toks
      in if toks = [] then Inl (ZeroDivisionError, ''division by zero'')
         else Inr \<lparr>ph_words = words,
                   ph_language = tok_language (hd toks),
                   ph_startIndex = 0,
                   ph_text = py_join '' '' words,
                   ph_confidence = sum_list (map tok_confidence toks) / real (length toks),
                   ph_endIndex = int (length words),
                   ph_isUserLanguage = False\<rparr>)"

text \<open>The word loop of \<open>detect_language\<close>: one top-1 prediction for each word.\<close>

fun word_tokens :: "fasttext_model \<Rightarrow> string list \<Rightarrow> py_exception + token list" where
  "word_tokens m [] = Inr []"
| "word_tokens m (w # ws) =
     (case m w 1 of
        Inl e \<Rightarrow> Inl e
      | Inr (labels, confs) \<Rightarrow>
          (let word_lang = (case labels of [] \<Rightarrow> ''unknown''
                            | l # _ \<Rightarrow> py_replace ''__label__'' [] l);
               word_conf = (case confs of [] \<Rightarrow> 0 | c # _ \<Rightarrow> c)
           in case word_tokens m ws of
                Inl e \<Rightarrow> Inl e
              | Inr toks \<Rightarrow>
                  Inr (\<lparr>tok_word = w, tok_lang = word_lang,
                        tok_language = code_to_name word_lang,
                        tok_confidence = word_conf\<rparr> # toks)))"

text \<open>
  The grouping loop \<open>for token in tokens[1:]\<close> and the final phrase; \<open>cur\<close> is
  \<open>current_phrase\<close>, and \<open>current_phrase[-1]\<close> raises on an empty list.
\<close>

fun worker_phrases :: "token list \<Rightarrow> token list \<Rightarrow> py_exception + phrase list" where
  "worker_phrases cur [] =
     (if cur \<noteq> [] then (case create_phrase cur of Inl e \<Rightarrow> Inl e | Inr p \<Rightarrow> Inr [p])
      else Inr [])"
| "worker_phrases cur (t # ts) =
     (if cur = [] then Inl (IndexError, ''list index out of range'')
      else if tok_lang t = tok_lang (last cur) then worker_phrases (cur @ [t]) ts
      else (case create_phrase cur of
              Inl e \<Rightarrow> Inl e
            | Inr p \<Rightarrow>
                (case worker_phrases [t] ts of Inl e \<Rightarrow> Inl e | Inr ps \<Rightarrow> Inr (p # ps))))"

text \<open>The switch-point loop \<open>for i in range(len(phrases) - 1)\<close>.\<close>

fun worker_switch_points :: "phrase list \<Rightarrow> int list" where
  "worker_switch_points (p # q # ps) =
     (if ph_language p \<noteq> ph_language q then ph_endIndex p # worker_switch_points (q # ps)
      else worker_switch_points (q # ps))"
| "worker_switch_points ps = []"

definition detected_of :: "string list \<times> real list \<Rightarrow> detected_language list" where
  "detected_of prediction =
     map (\<lambda>lc. let code = py_replace ''__label__'' [] (fst lc)
               in \<lparr>dl_language = code, dl_confidence = snd lc, dl_name = code_to_name code\<rparr>)
         (zip (fst prediction) (snd prediction))"

text \<open>
  The user-language match of \<open>detect_language\<close>: the first detected language against
  the normalized user languages.
\<close>

definition worker_language_match ::
  "json \<Rightarrow> detected_language list \<Rightarrow> py_exception + bool"
where
  "worker_language_match user_languages detected =
     (if json_truthy user_languages \<and> detected \<noteq> []
      then (case py_iter user_languages of
              Inl e \<Rightarrow> Inl e
            | Inr langs \<Rightarrow>
                (case normalize_all langs of
                   Inl e \<Rightarrow> Inl e
                 | Inr codes \<Rightarrow> Inr (dl_language (hd detected) \<in> set codes)))
      else Inr False)"

text \<open>The body of the \<open>try\<close> of \<open>detect_language\<close>, once the text is known to be a string.\<close>

definition detect_body ::
  "fasttext_model \<Rightarrow> string option \<Rightarrow> string \<Rightarrow> json \<Rightarrow> py_exception + response"
where
  "detect_body m path text user_languages =
     (let cleaned_text = py_strip (py_replace [CHR 0x0D] '' '' (py_replace [CHR 0x0A] '' '' text))
      in if cleaned_text = [] then Inr (ErrorResponse ''Empty text provided'')
         else
           (case m cleaned_text 5 of
              Inl e \<Rightarrow> Inl e
            | Inr prediction \<Rightarrow>
                (let detected = detected_of prediction
                 in case word_tokens m (py_split cleaned_text) of
                      Inl e \<Rightarrow> Inl e
                    | Inr toks \<Rightarrow>
                        (case (case toks of [] \<Rightarrow> Inr [] | t # rest \<Rightarrow> worker_phrases [t] rest) of
                           Inl e \<Rightarrow> Inl e
                         | Inr phrs \<Rightarrow>
                             (case worker_language_match user_languages detected of
                                Inl e \<Rightarrow> Inl e
                              | Inr user_lang_match \<Rightarrow>
                                  Inr (DetectionResponse
                                    \<lparr>det_tokens = toks,
                                     det_phrases = phrs,
                                     det_switchPoints = worker_switch_points phrs,
                                     det_confidence =
                                       (if detected \<noteq> [] then dl_confidence (hd detected) else 0),
                                     det_userLanguageMatch = user_lang_match,
                                     det_detectedLanguages = map dl_name (take 3 detected),
                                     det_processing =
                                       \<lparr>pr_timeMs = 0, pr_engine = ''FastText'',
                                        pr_modelPath = path,
                                        pr_tokensPerSecond =
                                          (if toks \<noteq> [] then int (length toks) * 1000 else 0)\<rparr>\<rparr>))))))"

text \<open>
  \<open>detect_language\<close>: no model gives an error dictionary, the \<open>try\<close> turns every
  exception into one. A text that is no string has no \<open>replace\<close>.
\<close>

definition detect_language :: "FastTextWorker \<Rightarrow> json \<Rightarrow> json \<Rightarrow> response" where
  "detect_language self text user_languages =
     (case model self of
        None \<Rightarrow> ErrorResponse ''FastText model not initialized''
      | Some m \<Rightarrow>
          (case (case text of
                   JStr s \<Rightarrow> detect_body m (model_path self) s user_languages
                 | _ \<Rightarrow> Inl (no_attribute text ''replace'')) of
             Inl e \<Rightarrow> ErrorResponse (''Detection failed: '' @ py_str e)
           | Inr r \<Rightarrow> r))"

section \<open>The FastText worker: the request loop\<close>

text \<open>What the worker does to its standard output.\<close>

datatype event = Print response | Flush

text \<open>\<open>request.get(key, default)\<close>: only a dictionary has \<open>get\<close>.\<close>

definition request_get :: "json \<Rightarrow> string \<Rightarrow> json \<Rightarrow> py_exception + json" where
  "request_get request key dflt =
     (case request of
        JObj kvs \<Rightarrow> Inr (case map_of kvs key of None \<Rightarrow> dflt | Some v \<Rightarrow> v)
      | _ \<Rightarrow> Inl (no_attribute request ''get''))"

text \<open>
  \<open>result['processing']['timeMs'] = round(...)\<close> for a result that has the key;
  \<open>time_ms\<close> is the rounded reading of the clock.
\<close>

definition set_timeMs :: "response \<Rightarrow> real \<Rightarrow> response" where
  "set_timeMs result time_ms =
     (case result of
        DetectionResponse d \<Rightarrow>
          DetectionResponse (d\<lparr>det_processing := (det_processing d)\<lparr>pr_timeMs := time_ms\<rparr>\<rparr>)
      | _ \<Rightarrow> result)"

text \<open>The inner \<open>try\<close> of the loop, up to the response that is printed.\<close>

definition process_request ::
  "FastTextWorker \<Rightarrow> (string \<Rightarrow> py_exception + json) \<Rightarrow> real \<Rightarrow> string \<Rightarrow> py_exception + response"
where
  "process_request worker json_loads time_ms line =
     (case json_loads line of
        Inl e \<Rightarrow> Inl e
      | Inr request \<Rightarrow>
          (case request_get request ''text'' (JStr []) of
             Inl e \<Rightarrow> Inl e
           | Inr text \<Rightarrow>
               (case request_get request ''languages'' (JArr []) of
                  Inl e \<Rightarrow> Inl e
                | Inr languages \<Rightarrow>
                    (if \<not> json_truthy text then Inr (ErrorResponse ''No text provided'')
                     else Inr (set_timeMs (detect_language worker text languages) time_ms)))))"

text \<open>One turn of \<open>for line in sys.stdin\<close>: the events it adds to the output.\<close>

definition handle_line ::
  "FastTextWorker \<Rightarrow> (string \<Rightarrow> py_exception + json) \<Rightarrow> string \<times> real \<Rightarrow> event list"
where
  "handle_line worker json_loads input =
     (let line = py_strip (fst input)
      in if line = [] then []
         else (case process_request worker json_loads (snd input) line of
                 Inr resp \<Rightarrow> [Print resp, Flush]
               | Inl e \<Rightarrow>
                   (if fst e = JSONDecodeError
                    then [Print (ErrorResponse (''Invalid JSON: '' @ py_str e)), Flush]
                    else [Print (ErrorResponse (''Processing failed: '' @ py_str e)), Flush])))"

text \<open>
  What \<open>for line in sys.stdin\<close> meets at the start of a turn: a line, given with the
  time a detection in this turn would measure; an exception raised by the read itself
  (bytes that do not decode); or a keyboard interrupt.
\<close>

datatype stdin_item = Line string real | ReadRaises py_exception | KeyboardInterrupt

text \<open>
  The loop inside the outer \<open>try\<close> of \<open>main\<close>: the output with the exit status. It reads
  a line only after the turn for the line before it has ended. An exception raised by the
  read leaves the loop for \<open>except Exception\<close>, which ends the process with
  \<open>sys.exit(1)\<close>; a keyboard interrupt leaves it for its own handler, after which \<open>main\<close>
  returns; so does the end of the input. The status \<open>None\<close> is a return of \<open>main\<close>.
  Writing to the standard output is taken to succeed.
\<close>

fun request_loop ::
  "FastTextWorker \<Rightarrow> (string \<Rightarrow> py_exception + json) \<Rightarrow> stdin_item list \<Rightarrow>
   event list \<times> int option"
where
  "request_loop worker json_loads [] = ([], None)"
| "request_loop worker json_loads (Line line time_ms # rest) =
     (let later = request_loop worker json_loads rest
      in (handle_line worker json_loads (line, time_ms) @ fst later, snd later))"
| "request_loop worker json_loads (ReadRaises e # rest) = ([], Some 1)"
| "request_loop worker json_loads (KeyboardInterrupt # rest) = ([], None)"

text \<open>
  \<open>main\<close>: \<open>initialized\<close> is the worker \<open>initialize\<close> leaves behind when it succeeds;
  when it fails the error is printed and the process ends with status 1.
\<close>

definition main ::
  "FastTextWorker option \<Rightarrow> (string \<Rightarrow> py_exception + json) \<Rightarrow> stdin_item list \<Rightarrow>
   event list \<times> int option"
where
  "main initialized json_loads inputs =
     (case initialized of
        None \<Rightarrow> ([Print (ErrorResponse ''Failed to initialize FastText model'')], Some 1)
      | Some worker \<Rightarrow>
          (let served = request_loop worker json_loads inputs
           in ([Print (Ready (model_path worker)), Flush] @ fst served, snd served)))"

section \<open>Vocabulary of the properties\<close>

text \<open>
  The calls that change a service, and a service as \<open>__init__\<close> leaves it. A call of
  \<open>analyze_text\<close> that raised would still have counted the request.
\<close>

datatype operation =
  Analyze real real string "string list option" bool bool string | ClearCache

fun apply_operation :: "SwitchPrintService \<Rightarrow> operation \<Rightarrow> SwitchPrintService" where
  "apply_operation self (Analyze start_time now text user_languages use_cache fast_mode perf_mode) =
     (case analyze_text self start_time now text user_languages use_cache fast_mode perf_mode of
        Inl e \<Rightarrow> self\<lparr>total_requests := total_requests self + 1\<rparr>
      | Inr out \<Rightarrow> snd out)"
| "apply_operation self ClearCache = clear_cache self"

definition fresh :: "SwitchPrintService \<Rightarrow> bool" where
  "fresh self = (cache self = [] \<and> cache_hits self = 0 \<and> total_requests self = 0)"

definition counters_ok :: "SwitchPrintService \<Rightarrow> bool" where
  "counters_ok self = (0 \<le> cache_hits self \<and> cache_hits self \<le> total_requests self)"

text \<open>
  \<open>switch_count sps i j\<close>: how many of the word indices \<open>i, ..., j\<close> are supplied switch
  points.
\<close>

definition switch_count :: "int list \<Rightarrow> nat \<Rightarrow> nat \<Rightarrow> nat" where
  "switch_count sps i j = length (filter (\<lambda>k. int k \<in> set sps) [i..<Suc j])"

text \<open>The language each conversion gives to word \<open>j\<close>.\<close>

definition language_v2 :: "string list \<Rightarrow> int list \<Rightarrow> nat \<Rightarrow> string" where
  "language_v2 dl sps j =
     (if 1 < length dl \<and> sps \<noteq> [] then dl ! (switch_count sps 0 j mod length dl)
      else if dl = [] then ''unknown'' else hd dl)"

definition language_legacy :: "string list \<Rightarrow> int list \<Rightarrow> nat \<Rightarrow> string" where
  "language_legacy dl sps j =
     (if 1 < length dl \<and> sps \<noteq> [] then dl ! (min (switch_count sps 0 j) (length dl - 1))
      else if dl = [] then ''unknown'' else hd dl)"

text \<open>The switch points the legacy conversion works with.\<close>

definition legacy_points :: "LegacyResult \<Rightarrow> int list" where
  "legacy_points raw =
     (case lr_switch_points raw of None \<Rightarrow> [] | Some legacy \<Rightarrow> legacy_switch_points legacy)"

text \<open>
  \<open>partitions_from i ts ps\<close>: the phrases \<open>ps\<close> cut the tokens \<open>ts\<close>, which start at
  index \<open>i\<close>, into consecutive non-empty runs: each phrase holds the words of its run,
  carries the run's first and last index, and has the language of each of its tokens.
\<close>

fun partitions_from :: "int \<Rightarrow> token list \<Rightarrow> phrase list \<Rightarrow> bool" where
  "partitions_from i ts [] = (ts = [])"
| "partitions_from i ts (p # ps) =
     (let n = length (ph_words p)
      in 0 < n \<and> n \<le> length ts \<and>
         ph_startIndex p = i \<and> ph_endIndex p = i + int n - 1 \<and>
         ph_words p = map tok_word (take n ts) \<and>
         list_all (\<lambda>t. tok_language t = ph_language p) (take n ts) \<and>
         partitions_from (i + int n) (drop n ts) ps)"

text \<open>Two detector results used as concrete inputs.\<close>

definition example_integrated :: IntegratedResult where
  "example_integrated =
     \<lparr>ir_original_confidence = Some 0.9, ir_calibrated_confidence = Some 0.8,
      ir_reliability_score = None, ir_quality_assessment = None,
      ir_calibration_method = None,
      ir_detected_languages = Some [''english'', ''spanish''],
      ir_switch_points = Some [2, 3, 7]\<rparr>"

definition example_legacy :: LegacyResult where
  "example_legacy =
     \<lparr>lr_detected_languages = Some [''english'', ''spanish''],
      lr_confidence = Some 0.7,
      lr_switch_points = Some [SpTuple 2 [''spanish''], SpInt 3, SpOther]\<rparr>"

text \<open>
  The cache as a dictionary of at most a thousand entries: distinct keys, as in every
  Python \<open>dict\<close>, and the size limit.
\<close>

definition cache_ok :: "SwitchPrintService \<Rightarrow> bool" where
  "cache_ok self = (distinct (map fst (cache self)) \<and> length (cache self) \<le> 1000)"

text \<open>
  Services used as concrete inputs: one whose primary detector answers, one with no
  detector at all, and one whose only detector, the legacy one, raises.
\<close>

definition example_service :: SwitchPrintService where
  "example_service =
     \<lparr>integrated_detector = Some (\<lambda>t ul. Inr example_integrated),
      context_detector = None, metrics_dashboard = None, context_optimizer = None,
      legacy_detector = None, fasttext_detector = None,
      cache = [], cache_hits = 0, total_requests = 0, switchprint_available = True\<rparr>"

definition mock_only_service :: SwitchPrintService where
  "mock_only_service =
     \<lparr>integrated_detector = None,
      context_detector = None, metrics_dashboard = None, context_optimizer = None,
      legacy_detector = None, fasttext_detector = None,
      cache = [], cache_hits = 0, total_requests = 0, switchprint_available = False\<rparr>"

definition failing_legacy_service :: SwitchPrintService where
  "failing_legacy_service =
     \<lparr>integrated_detector = None,
      context_detector = None, metrics_dashboard = None, context_optimizer = None,
      legacy_detector = Some (\<lambda>t ul. Inl (OtherError, ''boom'')), fasttext_detector = None,
      cache = [], cache_hits = 0, total_requests = 0, switchprint_available = True\<rparr>"

text \<open>
  A worker used as a concrete input: its model answers Spanish for the word \<open>hola\<close> and
  English for every other text.
\<close>

definition example_model :: fasttext_model where
  "example_model s k =
     Inr (if s = ''hola'' then ([''__label__es''], [0.9]) else ([''__label__en''], [0.8]))"

definition example_worker :: FastTextWorker where
  "example_worker = \<lparr>model = Some example_model, model_path = Some ''/tmp/lid.176.ftz''\<rparr>"

text \<open>The words, first index and last index of each phrase of a response.\<close>

definition phrase_spans :: "response \<Rightarrow> (string list \<times> int \<times> int) list" where
  "phrase_spans resp =
     (case resp of
        DetectionResponse d \<Rightarrow>
          map (\<lambda>p. (ph_words p, ph_startIndex p, ph_endIndex p)) (det_phrases d)
      | _ \<Rightarrow> [])"

definition response_switch_points :: "response \<Rightarrow> int list" where
  "response_switch_points resp =
     (case resp of DetectionResponse d \<Rightarrow> det_switchPoints d | _ \<Rightarrow> [])"

text \<open>
  A detector result with one language and a switch point, one with two languages that
  change at the word of index 2, and the detection inside a response.
\<close>

definition single_language_result :: IntegratedResult where
  "single_language_result =
     \<lparr>ir_original_confidence = Some 0.9, ir_calibrated_confidence = None,
      ir_reliability_score = None, ir_quality_assessment = None,
      ir_calibration_method = None,
      ir_detected_languages = Some [''english''],
      ir_switch_points = Some [3]\<rparr>"

definition two_language_result :: IntegratedResult where
  "two_language_result =
     \<lparr>ir_original_confidence = Some 0.9, ir_calibrated_confidence = None,
      ir_reliability_score = None, ir_quality_assessment = None,
      ir_calibration_method = None,
      ir_detected_languages = Some [''english'', ''spanish''],
      ir_switch_points = Some [2]\<rparr>"

definition response_detection :: "response \<Rightarrow> detection option" where
  "response_detection resp = (case resp of DetectionResponse d \<Rightarrow> Some d | _ \<Rightarrow> None)"

text \<open>
  A stand-in for \<open>json.loads\<close> on four lines: a thousand or more opening brackets, on
  which the parser runs out of stack; the empty object; the number five; and anything else, which
  is no JSON. Then the lines of a list of inputs, and the test for a printed line.
\<close>

definition example_loads :: "string \<Rightarrow> py_exception + json" where
  "example_loads line =
     (if 1000 \<le> length line \<and> list_all (\<lambda>c. c = CHR ''['') line
      then Inl (RecursionError,
                ''maximum recursion depth exceeded while decoding a JSON array from a unicode string'')
      else if line = ''{}'' then Inr (JObj [])
      else if line = ''5'' then Inr (JInt 5)
      else Inl (JSONDecodeError, ''Expecting value: line 1 column 1 (char 0)''))"

definition lines_of :: "(string \<times> real) list \<Rightarrow> stdin_item list" where
  "lines_of inputs = map (\<lambda>i. Line (fst i) (snd i)) inputs"

fun is_print :: "event \<Rightarrow> bool" where
  "is_print (Print resp) = True"
| "is_print Flush = False"

text \<open>
  Calls that fill a cache: call \<open>i\<close> analyzes the text of \<open>i\<close> letters \<open>a\<close>, so the keys
  of different calls differ.
\<close>

definition fill_text :: "nat \<Rightarrow> string" where
  "fill_text i = replicate i CHR ''a''"

definition fill_key :: "nat \<Rightarrow> string" where
  "fill_key i = make_cache_key (fill_text i) None ''balanced''"

definition fill_ops :: "nat \<Rightarrow> operation list" where
  "fill_ops n = map (\<lambda>i. Analyze 0 1 (fill_text i) None True False ''balanced'') [0..<n]"

section \<open>The orchestration returns\<close>

lemma py_index_0: "xs \<noteq> [] \<Longrightarrow> py_index xs 0 = Inr (hd xs)"
  by (cases xs) (simp_all add: py_index_def)

lemma get_mock_result_total:
  "\<exists>r. get_mock_result text ul t0 t1 err = Inr r"
  by (cases ul) (auto simp: get_mock_result_def truthy_def or_empty_def py_index_0 Let_def)

lemma fallback_analysis_total:
  "\<exists>r. fallback_analysis self text ul t0 t1 fm = Inr r"
  using get_mock_result_total
  by (auto simp: fallback_analysis_def Let_def split: option.splits sum.splits)

lemma analyze_text_counters:
  assumes "analyze_text self t0 t1 text ul uc fm pm = Inr (r, self')"
  shows "total_requests self' = total_requests self + 1 \<and>
         (cache_hits self' = cache_hits self \<or> cache_hits self' = cache_hits self + 1)"
  using assms
  by (auto simp: analyze_text_def primary_analysis_def Let_def
           split: option.splits sum.splits if_splits)

lemma analyze_text_total:
  "\<exists>r self'. analyze_text self t0 t1 text ul uc fm pm = Inr (r, self')"
proof -
  obtain r where "fallback_analysis (self\<lparr>total_requests := total_requests self + 1\<rparr>) text ul t0 t1 fm = Inr r"
    using fallback_analysis_total by blast
  then show ?thesis
    by (auto simp: analyze_text_def Let_def split: option.splits sum.splits)
qed

section \<open>The token walk of the conversions\<close>

lemma switch_count_step:
  "i \<le> j \<Longrightarrow> switch_count sps i j = (if int i \<in> set sps then 1 else 0) + switch_count sps (Suc i) j"
  by (simp add: switch_count_def upt_conv_Cons del: upt_Suc)

lemma switch_count_single:
  "switch_count sps i i = (if int i \<in> set sps then 1 else 0)"
  by (simp add: switch_count_def del: upt_Suc add: upt_conv_Cons)

lemma py_index_nat: "k < length xs \<Longrightarrow> py_index xs (int k) = Inr (xs ! k)"
  by (simp add: py_index_def)

lemma tokens_v2_walk:
  assumes "1 < length dl" and "sps \<noteq> []"
  shows "\<exists>ts. tokens_v2 dl sps conf i (int (c mod length dl)) ws = Inr ts \<and>
           length ts = length ws \<and>
           (\<forall>j<length ws. ts ! j =
              make_token (ws ! j) (dl ! ((c + switch_count sps i (i + j)) mod length dl)) conf)"
proof (induction ws arbitrary: i c)
  case Nil
  then show ?case by simp
next
  case (Cons w ws)
  let ?n = "length dl"
  let ?d = "if int i \<in> set sps then 1 else 0 :: nat"
  let ?c' = "c + ?d"
  have n: "0 < ?n" "dl \<noteq> []" using assms by auto
  have cur: "(if sps \<noteq> [] \<and> int i \<in> set sps then py_mod (int (c mod ?n) + 1) (int ?n) else Inr (int (c mod ?n)))
             = Inr (int (?c' mod ?n))"
    using n by (auto simp: py_mod_def zmod_int mod_add_left_eq)
  have idx: "py_index dl (int (?c' mod ?n)) = Inr (dl ! (?c' mod ?n))"
    using n by (intro py_index_nat) simp
  from Cons.IH[of "Suc i" ?c'] obtain ts where
    ts: "tokens_v2 dl sps conf (Suc i) (int (?c' mod ?n)) ws = Inr ts"
        "length ts = length ws"
        "\<forall>j<length ws. ts ! j =
              make_token (ws ! j) (dl ! ((?c' + switch_count sps (Suc i) (Suc i + j)) mod ?n)) conf"
    by blast
  have run: "tokens_v2 dl sps conf i (int (c mod ?n)) (w # ws) =
        Inr (make_token w (dl ! (?c' mod ?n)) conf # ts)"
    using n(2) by (simp only: tokens_v2.simps cur idx ts(1) sum.case if_True if_False simp_thms)
  have "(make_token w (dl ! (?c' mod ?n)) conf # ts) ! j =
          make_token ((w # ws) ! j) (dl ! ((c + switch_count sps i (i + j)) mod ?n)) conf"
    if "j < length (w # ws)" for j
  proof (cases j)
    case 0
    then show ?thesis by (simp add: switch_count_single)
  next
    case (Suc k)
    then have "k < length ws" using that by simp
    moreover have "switch_count sps i (i + j) = ?d + switch_count sps (Suc i) (Suc i + k)"
      using Suc by (subst switch_count_step) auto
    ultimately show ?thesis using ts(3) Suc by (simp add: add.assoc)
  qed
  then show ?case using run ts(2) by auto
qed

lemma tokens_legacy_walk:
  assumes "1 < length dl"
  shows "\<exists>ts. tokens_legacy dl sps conf i (int (min c (length dl - 1))) ws = Inr ts \<and>
           length ts = length ws \<and>
           (\<forall>j<length ws. ts ! j =
              make_token (ws ! j) (dl ! (min (c + switch_count sps i (i + j)) (length dl - 1))) conf)"
proof (induction ws arbitrary: i c)
  case Nil
  then show ?case by simp
next
  case (Cons w ws)
  let ?n = "length dl"
  let ?d = "if int i \<in> set sps then 1 else 0 :: nat"
  let ?c' = "c + ?d"
  let ?cur = "int (min c (?n - 1))"
  let ?cur' = "int (min ?c' (?n - 1))"
  have cur: "(if int i \<in> set sps \<and> ?cur < int ?n - 1 then ?cur + 1 else ?cur) = ?cur'"
    using assms by (auto simp: min_def)
  have lt: "?cur' < int ?n" using assms by (auto simp: min_def)
  have idx: "py_index dl ?cur' = Inr (dl ! (min ?c' (?n - 1)))"
    using assms by (intro py_index_nat) (auto simp: min_def)
  from Cons.IH[of "Suc i" ?c'] obtain ts where
    ts: "tokens_legacy dl sps conf (Suc i) ?cur' ws = Inr ts"
        "length ts = length ws"
        "\<forall>j<length ws. ts ! j =
              make_token (ws ! j) (dl ! (min (?c' + switch_count sps (Suc i) (Suc i + j)) (?n - 1))) conf"
    by blast
  have run: "tokens_legacy dl sps conf i ?cur (w # ws) =
        Inr (make_token w (dl ! (min ?c' (?n - 1))) conf # ts)"
    using lt by (simp only: tokens_legacy.simps Let_def cur idx ts(1) sum.case if_True simp_thms)
  have "(make_token w (dl ! (min ?c' (?n - 1))) conf # ts) ! j =
          make_token ((w # ws) ! j) (dl ! (min (c + switch_count sps i (i + j)) (?n - 1))) conf"
    if "j < length (w # ws)" for j
  proof (cases j)
    case 0
    then show ?thesis by (simp add: switch_count_single)
  next
    case (Suc k)
    then have "k < length ws" using that by simp
    moreover have "switch_count sps i (i + j) = ?d + switch_count sps (Suc i) (Suc i + k)"
      using Suc by (subst switch_count_step) auto
    ultimately show ?thesis using ts(3) Suc by (simp add: add.assoc)
  qed
  then show ?case using run ts(2) by auto
qed

lemma tokens_single_nth:
  "length (tokens_single dl conf ws) = length ws \<and>
   (\<forall>j<length ws. tokens_single dl conf ws ! j =
      make_token (ws ! j) (if dl = [] then ''unknown'' else hd dl) conf)"
  by (auto simp: tokens_single_def Let_def)

lemma convert_v2_tokens:
  fixes raw :: IntegratedResult
  defines "dl \<equiv> getattr (ir_detected_languages raw) [''unknown'']"
      and "sps \<equiv> getattr (ir_switch_points raw) []"
      and "conf \<equiv> getattr (ir_calibrated_confidence raw) (getattr (ir_original_confidence raw) 0.5)"
  shows "\<exists>r. convert_v2_1_2_result ver raw opt text ul t0 t1 pm = Inr r \<and>
           length (tokens r) = length (py_split text) \<and>
           (\<forall>j<length (py_split text). tokens r ! j =
              make_token (py_split text ! j) (language_v2 dl sps j) conf)"
proof (cases "1 < length dl \<and> sps \<noteq> []")
  case True
  from tokens_v2_walk[of dl sps conf 0 0 "py_split text"] True obtain ts where
    ts: "tokens_v2 dl sps conf 0 0 (py_split text) = Inr ts" "length ts = length (py_split text)"
        "\<forall>j<length (py_split text). ts ! j =
           make_token (py_split text ! j) (dl ! (switch_count sps 0 j mod length dl)) conf"
    by auto
  show ?thesis
    using True ts unfolding convert_v2_1_2_result_def Let_def language_v2_def
    by (simp add: dl_def sps_def conf_def)
next
  case False
  show ?thesis
    using False tokens_single_nth[of dl conf "py_split text"]
    unfolding convert_v2_1_2_result_def Let_def language_v2_def
    by (auto simp add: dl_def sps_def conf_def)
qed

lemma convert_legacy_tokens:
  fixes raw :: LegacyResult
  defines "dl \<equiv> getattr (lr_detected_languages raw) [''unknown'']"
      and "sps \<equiv> legacy_points raw"
      and "conf \<equiv> getattr (lr_confidence raw) 0.5"
  shows "\<exists>r. convert_legacy_result raw text ul t0 t1 = Inr r \<and>
           length (tokens r) = length (py_split text) \<and>
           (\<forall>j<length (py_split text). tokens r ! j =
              make_token (py_split text ! j) (language_legacy dl sps j) conf)"
proof (cases "1 < length dl \<and> sps \<noteq> []")
  case True
  from tokens_legacy_walk[of dl sps conf 0 0 "py_split text"] True obtain ts where
    ts: "tokens_legacy dl sps conf 0 0 (py_split text) = Inr ts" "length ts = length (py_split text)"
        "\<forall>j<length (py_split text). ts ! j =
           make_token (py_split text ! j) (dl ! (min (switch_count sps 0 j) (length dl - 1))) conf"
    by auto
  show ?thesis
    using True ts unfolding convert_legacy_result_def Let_def language_legacy_def
    by (simp add: dl_def sps_def conf_def legacy_points_def)
next
  case False
  show ?thesis
    using False tokens_single_nth[of dl conf "py_split text"]
    unfolding convert_legacy_result_def Let_def language_legacy_def
    by (auto simp add: dl_def sps_def conf_def legacy_points_def)
qed

section \<open>Phrases of the conversions\<close>

lemma group_phrases_partition:
  assumes "cp_words cp = map tok_word pre" and "pre \<noteq> []"
      and "\<forall>t\<in>set pre. tok_lang t = cp_language cp"
      and "\<forall>t\<in>set (pre @ ts). tok_language t = tok_lang t"
      and "int i = cp_startIndex cp + int (length pre)"
  shows "partitions_from (cp_startIndex cp) (pre @ ts) (group_phrases ul conf cp i ts)"
  using assms
proof (induction ts arbitrary: cp pre i)
  case Nil
  then show ?case
    by (auto simp: finalize_phrase_def Let_def list_all_iff)
next
  case (Cons t ts)
  show ?case
  proof (cases "tok_lang t = cp_language cp")
    case True
    let ?cp = "cp\<lparr>cp_words := cp_words cp @ [tok_word t]\<rparr>"
    have "partitions_from (cp_startIndex ?cp) ((pre @ [t]) @ ts)
            (group_phrases ul conf ?cp (Suc i) ts)"
      using Cons.prems True by (intro Cons.IH) auto
    then show ?thesis using True by simp
  next
    case False
    let ?cp = "\<lparr>cp_words = [tok_word t], cp_language = tok_lang t, cp_startIndex = int i\<rparr>"
    have rest: "partitions_from (cp_startIndex ?cp) ([t] @ ts)
            (group_phrases ul conf ?cp (Suc i) ts)"
      using Cons.prems by (intro Cons.IH) auto
    show ?thesis
      using False Cons.prems rest
      by (auto simp: finalize_phrase_def Let_def list_all_iff)
  qed
qed

lemma make_phrases_partition:
  assumes "\<forall>t\<in>set ts. tok_language t = tok_lang t"
  shows "partitions_from 0 ts (make_phrases ul conf ts)"
proof (cases ts)
  case Nil
  then show ?thesis by (simp add: make_phrases_def)
next
  case (Cons t rest)
  let ?cp = "\<lparr>cp_words = [tok_word t], cp_language = tok_lang t, cp_startIndex = 0\<rparr>"
  have "partitions_from (cp_startIndex ?cp) ([t] @ rest) (group_phrases ul conf ?cp 1 rest)"
    using assms Cons by (intro group_phrases_partition) auto
  then show ?thesis using Cons by (simp add: make_phrases_def)
qed

text \<open>What a partition gives, read by index.\<close>

lemma partitions_from_sum:
  "partitions_from i ts ps \<Longrightarrow> sum_list (map (\<lambda>p. length (ph_words p)) ps) = length ts"
  by (induction ps arbitrary: i ts) (auto simp: Let_def)

lemma partitions_from_end:
  "partitions_from i ts ps \<Longrightarrow> p \<in> set ps \<Longrightarrow>
     ph_endIndex p = ph_startIndex p + int (length (ph_words p)) - 1"
  by (induction ps arbitrary: i ts) (auto simp: Let_def)

lemma partitions_from_next:
  "partitions_from i ts ps \<Longrightarrow> Suc k < length ps \<Longrightarrow>
     ph_startIndex (ps ! Suc k) = ph_endIndex (ps ! k) + 1"
proof (induction ps arbitrary: i ts k)
  case Nil
  then show ?case by simp
next
  case (Cons p ps)
  show ?case
  proof (cases k)
    case 0
    then obtain q qs where "ps = q # qs" using Cons.prems(2) by (cases ps) auto
    then show ?thesis using 0 Cons.prems(1) by (auto simp: Let_def)
  next
    case (Suc k')
    then show ?thesis using Cons by (auto simp: Let_def)
  qed
qed

lemma partitions_from_language:
  "partitions_from i ts ps \<Longrightarrow> p \<in> set ps \<Longrightarrow> ph_startIndex p \<le> j \<Longrightarrow> j \<le> ph_endIndex p \<Longrightarrow>
     i \<le> j \<and> nat (j - i) < length ts \<and> tok_language (ts ! nat (j - i)) = ph_language p"
proof (induction ps arbitrary: i ts)
  case Nil
  then show ?case by simp
next
  case (Cons q ps)
  let ?n = "length (ph_words q)"
  from Cons.prems(1) have q: "0 < ?n" "?n \<le> length ts" "ph_startIndex q = i"
      "ph_endIndex q = i + int ?n - 1"
      "list_all (\<lambda>t. tok_language t = ph_language q) (take ?n ts)"
      "partitions_from (i + int ?n) (drop ?n ts) ps"
    by (auto simp: Let_def)
  show ?case
  proof (cases "p = q")
    case True
    have "nat (j - i) < ?n" using Cons.prems(3,4) q True by auto
    then have "ts ! nat (j - i) \<in> set (take ?n ts)"
      using q(2) by (metis in_set_conv_nth length_take min.absorb2 nth_take)
    then show ?thesis using q True Cons.prems(3,4) by (auto simp: list_all_iff)
  next
    case False
    then have "p \<in> set ps" using Cons.prems(2) by simp
    from Cons.IH[OF q(6) this Cons.prems(3,4)]
    have ih: "i + int ?n \<le> j" "nat (j - (i + int ?n)) < length (drop ?n ts)"
        "tok_language (drop ?n ts ! nat (j - (i + int ?n))) = ph_language p"
      by auto
    have "nat (j - i) = ?n + nat (j - (i + int ?n))" using ih(1) by simp
    then show ?thesis using ih q(2) by auto
  qed
qed

section \<open>The language of each token\<close>

text \<open>
  Claim C8. Both conversions return, with one token for each word of the text. Where more
  than one language was detected and switch points were supplied, the language of token
  \<open>j\<close> is the detected language at the current index, which starts at 0 and advances
  at every word index up to and including \<open>j\<close> that is a supplied switch point
  (\<open>switch_count\<close> counts them): modulo the number of languages in the primary
  conversion, stopping at the last index in the legacy conversion. Otherwise every token
  has the first detected language (\<open>unknown\<close> when the list is empty).
\<close>

theorem token_language_walk:
  assumes "j < length (py_split text)"
  shows "(\<exists>r. convert_v2_1_2_result ver raw opt text ul t0 t1 pm = Inr r \<and>
            length (tokens r) = length (py_split text) \<and>
            tok_word (tokens r ! j) = py_split text ! j \<and>
            tok_language (tokens r ! j) = tok_lang (tokens r ! j) \<and>
            tok_lang (tokens r ! j) =
              (let dl = getattr (ir_detected_languages raw) [''unknown''];
                   sps = getattr (ir_switch_points raw) []
               in if 1 < length dl \<and> sps \<noteq> [] then dl ! (switch_count sps 0 j mod length dl)
                  else if dl = [] then ''unknown'' else hd dl)) \<and>
         (\<exists>r. convert_legacy_result lraw text ul t0 t1 = Inr r \<and>
            length (tokens r) = length (py_split text) \<and>
            tok_word (tokens r ! j) = py_split text ! j \<and>
            tok_language (tokens r ! j) = tok_lang (tokens r ! j) \<and>
            tok_lang (tokens r ! j) =
              (let dl = getattr (lr_detected_languages lraw) [''unknown''];
                   sps = legacy_points lraw
               in if 1 < length dl \<and> sps \<noteq> []
                  then dl ! (min (switch_count sps 0 j) (length dl - 1))
                  else if dl = [] then ''unknown'' else hd dl))"
proof -
  from convert_v2_tokens[of ver raw opt "text" ul t0 t1 pm] assms
  have a: "\<exists>r. convert_v2_1_2_result ver raw opt text ul t0 t1 pm = Inr r \<and>
            length (tokens r) = length (py_split text) \<and>
            tokens r ! j = make_token (py_split text ! j)
              (language_v2 (getattr (ir_detected_languages raw) [''unknown''])
                 (getattr (ir_switch_points raw) []) j)
              (getattr (ir_calibrated_confidence raw) (getattr (ir_original_confidence raw) 0.5))"
    by blast
  from convert_legacy_tokens[of lraw "text" ul t0 t1] assms
  have b: "\<exists>r. convert_legacy_result lraw text ul t0 t1 = Inr r \<and>
            length (tokens r) = length (py_split text) \<and>
            tokens r ! j = make_token (py_split text ! j)
              (language_legacy (getattr (lr_detected_languages lraw) [''unknown''])
                 (legacy_points lraw) j)
              (getattr (lr_confidence lraw) 0.5)"
    by blast
  from a b show ?thesis
    by (auto simp: make_token_def language_v2_def language_legacy_def Let_def)
qed

lemma split_example: "py_split ''I like la playa grande'' = [''I'', ''like'', ''la'', ''playa'', ''grande'']"
  by (simp add: py_split_def py_isspace_def)

theorem token_language_walk_witness:
  "3 < length (py_split ''I like la playa grande'') \<and>
   map_sum id (\<lambda>r. tok_lang (tokens r ! 3))
     (convert_v2_1_2_result ''2.1.2'' example_integrated None ''I like la playa grande'' None 0 1 ''balanced'')
     = Inr ''english'' \<and>
   map_sum id (\<lambda>r. tok_lang (tokens r ! 3))
     (convert_legacy_result example_legacy ''I like la playa grande'' None 0 1)
     = Inr ''spanish''"
proof -
  have len: "3 < length (py_split ''I like la playa grande'')"
    by (simp add: split_example)
  have sc: "switch_count [2, 3, 7] 0 3 = 2" "switch_count [2, 3] 0 3 = 2"
    by (simp_all add: switch_count_def upt_rec)
  have ar: "(2::nat) mod Suc (Suc 0) = 0" "min (2::nat) (Suc 0) = Suc 0"
    by (simp_all add: numeral_2_eq_2)
  show ?thesis
    using token_language_walk[OF len, of "''2.1.2''" example_integrated None None 0 1 "''balanced''" example_legacy] len
    by (auto simp: example_integrated_def example_legacy_def getattr_def legacy_points_def sc Let_def
          ar)
qed

section \<open>The cache\<close>

lemma dict_get_None: "dict_get d k = None \<longleftrightarrow> k \<notin> fst ` set d"
  by (simp add: dict_get_def map_of_eq_None_iff)

lemma dict_set_absent: "k \<notin> fst ` set d \<Longrightarrow> dict_set d k v = d @ [(k, v)]"
  by (induction d) auto

lemma dict_set_present: "k \<in> fst ` set d \<Longrightarrow> map fst (dict_set d k v) = map fst d"
  by (induction d) force+

lemma dict_get_set: "dict_get (dict_set d k v) k = Some v"
  by (induction d) (auto simp: dict_get_def)

lemma dict_del_head: "k \<notin> fst ` set d \<Longrightarrow> dict_del ((k, v) # d) k = d"
  by (auto simp: dict_del_def filter_id_conv)

lemma foldl_dict_del_oldest:
  "distinct (map fst d) \<Longrightarrow> foldl dict_del d (take n (map fst d)) = drop n d"
proof (induction d arbitrary: n)
  case Nil
  then show ?case by simp
next
  case (Cons kv d)
  obtain k v where kv: "kv = (k, v)" by (cases kv)
  show ?case
  proof (cases n)
    case 0
    then show ?thesis by simp
  next
    case (Suc m)
    have "k \<notin> fst ` set d" using Cons.prems kv by auto
    then have "dict_del (kv # d) k = d" using kv by (simp add: dict_del_head)
    moreover have "foldl dict_del d (take m (map fst d)) = drop m d"
      using Cons.prems by (intro Cons.IH) simp
    ultimately show ?thesis using Suc kv by simp
  qed
qed

lemma cache_store_miss:
  assumes "distinct (map fst c)" and "k \<notin> fst ` set c"
  shows "cache_store c k r =
           (if 1000 \<le> length c then drop 100 (c @ [(k, r)]) else c @ [(k, r)])"
proof -
  have "distinct (map fst (c @ [(k, r)]))" using assms by auto
  then have "foldl dict_del (c @ [(k, r)]) (take 100 (map fst (c @ [(k, r)])))
               = drop 100 (c @ [(k, r)])"
    by (rule foldl_dict_del_oldest)
  then show ?thesis
    using assms(2) by (auto simp: cache_store_def dict_set_absent Let_def)
qed

lemma cache_store_ok:
  assumes "distinct (map fst c)" and "length c \<le> 1000" and "k \<notin> fst ` set c"
  shows "distinct (map fst (cache_store c k r)) \<and> length (cache_store c k r) \<le> 1000 \<and>
         dict_get (cache_store c k r) k = Some r \<and>
         (length c = 1000 \<longrightarrow> cache_store c k r = drop 100 c @ [(k, r)]) \<and>
         (length c < 1000 \<longrightarrow> cache_store c k r = c @ [(k, r)])"
proof -
  have d: "distinct (map fst (c @ [(k, r)]))" using assms by auto
  have "distinct (map fst (drop 100 (c @ [(k, r)])))"
    using d by (metis distinct_drop drop_map)
  moreover have "dict_get (drop 100 c @ [(k, r)]) k = Some r"
  proof -
    have "k \<notin> fst ` set (drop 100 c)" using assms(3) by (auto dest: in_set_dropD)
    then show ?thesis by (simp add: dict_get_def map_add_Some_iff map_of_eq_None_iff)
  qed
  moreover have "dict_get (c @ [(k, r)]) k = Some r"
    using assms(3) by (simp add: dict_get_def map_add_Some_iff map_of_eq_None_iff)
  ultimately show ?thesis
    using assms d by (auto simp: cache_store_miss)
qed

text \<open>What a call of \<open>analyze_text\<close> does to the cache: one of three things.\<close>

lemma analyze_text_cache:
  assumes "analyze_text self t0 t1 text ul uc fm pm = Inr (r, self')"
  shows "(dict_get (cache self) (make_cache_key text ul pm) \<noteq> None \<and> cache_hit r \<and>
            cache self' = dict_set (cache self) (make_cache_key text ul pm) r) \<or>
         (\<not> cache_hit r \<and> cache self' = cache self) \<or>
         (dict_get (cache self) (make_cache_key text ul pm) = None \<and> \<not> cache_hit r \<and>
            cache self' = cache_store (cache self) (make_cache_key text ul pm) r)"
proof -
  have conv: "convert_v2_1_2_result ver raw opt text ul t0 t1 pm = Inr x \<Longrightarrow> \<not> cache_hit x"
    for ver raw opt x
    by (auto simp: convert_v2_1_2_result_def Let_def split: sum.splits)
  have leg: "convert_legacy_result raw text ul t0 t1 = Inr x \<Longrightarrow> \<not> cache_hit x" for raw x
    by (auto simp: convert_legacy_result_def Let_def split: sum.splits)
  have mock: "get_mock_result text ul t0 t1 err = Inr x \<Longrightarrow> \<not> cache_hit x" for err x
    by (auto simp: get_mock_result_def Let_def split: sum.splits if_splits)
  have fb: "fallback_analysis s text ul t0 t1 fm = Inr x \<Longrightarrow> \<not> cache_hit x" for s x
    using leg mock
    by (auto simp: fallback_analysis_def Let_def split: option.splits sum.splits)
  show ?thesis
    using assms conv fb
    by (auto simp: analyze_text_def primary_analysis_def Let_def
             split: option.splits sum.splits if_splits)
qed

lemma analyze_text_cache_ok:
  assumes "cache_ok self" and "analyze_text self t0 t1 text ul uc fm pm = Inr (r, self')"
  shows "cache_ok self'"
proof -
  let ?k = "make_cache_key text ul pm"
  from analyze_text_cache[OF assms(2)] consider
      (hit) "dict_get (cache self) ?k \<noteq> None" "cache self' = dict_set (cache self) ?k r"
    | (same) "cache self' = cache self"
    | (store) "dict_get (cache self) ?k = None" "cache self' = cache_store (cache self) ?k r"
    by auto
  then show ?thesis
  proof cases
    case hit
    then have "?k \<in> fst ` set (cache self)" by (simp add: dict_get_None)
    then have "map fst (cache self') = map fst (cache self)"
      using hit(2) by (simp add: dict_set_present)
    then show ?thesis using assms(1) by (metis cache_ok_def length_map)
  next
    case same
    then show ?thesis using assms(1) by (simp add: cache_ok_def)
  next
    case store
    then have "?k \<notin> fst ` set (cache self)" by (simp add: dict_get_None)
    then show ?thesis
      using assms(1) store(2) cache_store_ok[of "cache self" ?k r] by (simp add: cache_ok_def)
  qed
qed

lemma apply_operation_cache_ok: "cache_ok self \<Longrightarrow> cache_ok (apply_operation self op)"
proof (cases op)
  case (Analyze t0 t1 tx ul uc fm pm)
  assume ok: "cache_ok self"
  obtain r self' where "analyze_text self t0 t1 tx ul uc fm pm = Inr (r, self')"
    using analyze_text_total by blast
  then show ?thesis using Analyze ok analyze_text_cache_ok by fastforce
next
  case ClearCache
  then show ?thesis by (simp add: clear_cache_def cache_ok_def)
qed

lemma reachable_cache_ok: "cache_ok self \<Longrightarrow> cache_ok (foldl apply_operation self ops)"
  by (induction ops arbitrary: self) (auto simp: apply_operation_cache_ok)

lemma fresh_cache_ok: "fresh self \<Longrightarrow> cache_ok self"
  by (simp add: fresh_def cache_ok_def)

section \<open>The counters and the hit rate\<close>

lemma apply_operation_counters:
  assumes ok: "counters_ok self"
  shows "counters_ok (apply_operation self op)"
proof (cases op)
  case (Analyze t0 t1 tx ul uc fm pm)
  obtain r self' where a: "analyze_text self t0 t1 tx ul uc fm pm = Inr (r, self')"
    using analyze_text_total by blast
  from analyze_text_counters[OF a] ok a Analyze show ?thesis
    by (auto simp: counters_ok_def)
next
  case ClearCache
  then show ?thesis using ok by (simp add: clear_cache_def counters_ok_def)
qed

lemma reachable_counters: "counters_ok self \<Longrightarrow> counters_ok (foldl apply_operation self ops)"
  by (induction ops arbitrary: self) (auto simp: apply_operation_counters)

text \<open>
  Claim C10. \<open>get_cache_stats\<close> returns for every service whatsoever, its divisor being
  \<open>max(total_requests, 1)\<close>. In a service that started with both counters at zero and has
  handled any calls, the hits are between zero and the requests, so the hit rate lies
  between 0 and 1. Every call of \<open>analyze_text\<close> adds one to the requests and at most one
  to the hits, and \<open>clear_cache\<close> changes neither counter.
\<close>

theorem cache_stats_hit_rate:
  assumes "fresh self0"
  shows "(\<exists>st. get_cache_stats any_self = Inr st \<and>
               cs_hit_rate st =
                 real_of_int (cache_hits any_self) / real_of_int (max (total_requests any_self) 1)) \<and>
         0 \<le> cache_hits (foldl apply_operation self0 ops) \<and>
         cache_hits (foldl apply_operation self0 ops) \<le> total_requests (foldl apply_operation self0 ops) \<and>
         (\<exists>st. get_cache_stats (foldl apply_operation self0 ops) = Inr st \<and>
               0 \<le> cs_hit_rate st \<and> cs_hit_rate st \<le> 1) \<and>
         (\<exists>r self'. analyze_text any_self t0 t1 tx ul uc fm pm = Inr (r, self') \<and>
               total_requests self' = total_requests any_self + 1 \<and>
               (cache_hits self' = cache_hits any_self \<or> cache_hits self' = cache_hits any_self + 1)) \<and>
         cache_hits (clear_cache any_self) = cache_hits any_self \<and>
         total_requests (clear_cache any_self) = total_requests any_self"
proof -
  let ?s = "foldl apply_operation self0 ops"
  have ok: "counters_ok ?s"
    using assms by (intro reachable_counters) (simp add: fresh_def counters_ok_def)
  have stats: "\<exists>st. get_cache_stats s = Inr st \<and>
               cs_hit_rate st = real_of_int (cache_hits s) / real_of_int (max (total_requests s) 1)"
    for s
    by (simp add: get_cache_stats_def py_truediv_def max_def)
  have rate: "\<exists>st. get_cache_stats ?s = Inr st \<and> 0 \<le> cs_hit_rate st \<and> cs_hit_rate st \<le> 1"
  proof -
    from stats[of ?s] obtain st where st: "get_cache_stats ?s = Inr st"
      "cs_hit_rate st = real_of_int (cache_hits ?s) / real_of_int (max (total_requests ?s) 1)"
      by blast
    have "0 \<le> cache_hits ?s" "cache_hits ?s \<le> max (total_requests ?s) 1"
      "0 < max (total_requests ?s) 1"
      using ok by (auto simp: counters_ok_def)
    then have "0 \<le> cs_hit_rate st \<and> cs_hit_rate st \<le> 1"
      using st(2) by (simp add: divide_le_eq_1)
    then show ?thesis using st(1) by blast
  qed
  obtain r self' where a: "analyze_text any_self t0 t1 tx ul uc fm pm = Inr (r, self')"
    using analyze_text_total by blast
  show ?thesis
    using ok stats[of any_self] rate a analyze_text_counters[OF a]
    by (simp add: counters_ok_def clear_cache_def)
qed

theorem cache_stats_hit_rate_witness:
  "fresh mock_only_service \<and>
   cache_hits (foldl apply_operation mock_only_service
      [Analyze 0 1 ''hola'' None True False ''balanced'', ClearCache]) \<le>
   total_requests (foldl apply_operation mock_only_service
      [Analyze 0 1 ''hola'' None True False ''balanced'', ClearCache]) \<and>
   map_sum id cs_hit_rate (get_cache_stats mock_only_service) = Inr 0"
proof -
  have f: "fresh mock_only_service" by (simp add: fresh_def mock_only_service_def)
  have "map_sum id cs_hit_rate (get_cache_stats mock_only_service) = Inr 0"
    by (simp add: get_cache_stats_def py_truediv_def mock_only_service_def)
  with cache_stats_hit_rate[OF f, of mock_only_service
      "[Analyze 0 1 ''hola'' None True False ''balanced'', ClearCache]"] f
  show ?thesis by simp
qed

section \<open>Cache hits\<close>

lemma map_of_foldl_dict_del:
  "k \<notin> set ks \<Longrightarrow> map_of (foldl dict_del d ks) k = map_of d k"
proof (induction ks arbitrary: d)
  case Nil
  then show ?case by simp
next
  case (Cons a ks)
  have "map_of (dict_del d a) k = map_of d k"
    using Cons.prems by (induction d) (auto simp: dict_del_def)
  then show ?case using Cons by simp
qed

lemma dict_get_cache_store:
  assumes "k \<notin> fst ` set c"
  shows "dict_get (cache_store c k r) k = Some r"
proof -
  let ?c1 = "c @ [(k, r)]"
  have get: "map_of ?c1 k = Some r"
    using assms by (simp add: map_add_Some_iff map_of_eq_None_iff)
  have "k \<notin> set (take 100 (map fst ?c1))" if "1000 < length ?c1"
  proof -
    have "take 100 (map fst ?c1) = take 100 (map fst c)" using that by simp
    then show ?thesis using assms by (auto dest: in_set_takeD)
  qed
  then show ?thesis
    using assms get
    by (auto simp: cache_store_def dict_set_absent dict_get_def Let_def map_of_foldl_dict_del
             simp del: map_of_append)
qed

lemma convert_v2_total:
  "\<exists>r. convert_v2_1_2_result ver raw opt tx ul t0 t1 pm = Inr r \<and> \<not> cache_hit r"
proof -
  obtain r where r: "convert_v2_1_2_result ver raw opt tx ul t0 t1 pm = Inr r"
    using convert_v2_tokens by blast
  then have "\<not> cache_hit r"
    by (auto simp: convert_v2_1_2_result_def Let_def split: sum.splits)
  then show ?thesis using r by blast
qed

text \<open>
  Claim C6, as amended. With \<open>use_cache\<close> true, a call that misses the cache and whose
  primary detector returns stores its result, reported with \<open>cache_hit\<close> false, under the
  key made of the text, the user languages in the order given and the performance mode.
  A second call with the same text, the same user languages in the same order and the
  same mode returns that result with \<open>cache_hit\<close> true and the processing time of the
  second call, every other field unchanged, and counts one hit.
\<close>

theorem cache_hit_on_repeat:
  assumes "integrated_detector self = Some detector"
      and "detector tx ul = Inr raw"
      and "dict_get (cache self) (make_cache_key tx ul pm) = None"
  shows "\<exists>r self1 self2.
           analyze_text self t0 t1 tx ul True fm pm = Inr (r, self1) \<and>
           \<not> cache_hit r \<and>
           dict_get (cache self1) (make_cache_key tx ul pm) = Some r \<and>
           analyze_text self1 t2 t3 tx ul True fm' pm =
             Inr (r\<lparr>cache_hit := True, processing_time_ms := (t3 - t2) * 1000\<rparr>, self2) \<and>
           cache_hits self2 = cache_hits self + 1"
proof -
  let ?k = "make_cache_key tx ul pm"
  obtain r where r: "convert_v2_1_2_result (SWITCHPRINT_VERSION self) raw (run_optimizer self tx)
                        tx ul t0 t1 pm = Inr r" "\<not> cache_hit r"
    using convert_v2_total by blast
  let ?self1 = "self\<lparr>total_requests := total_requests self + 1,
                      cache := cache_store (cache self) ?k r\<rparr>"
  have run: "convert_v2_1_2_result (SWITCHPRINT_VERSION (self\<lparr>total_requests := total_requests self + 1\<rparr>))
               raw (run_optimizer (self\<lparr>total_requests := total_requests self + 1\<rparr>) tx)
               tx ul t0 t1 pm = Inr r"
    using r(1) by (simp add: SWITCHPRINT_VERSION_def run_optimizer_def)
  have first: "analyze_text self t0 t1 tx ul True fm pm = Inr (r, ?self1)"
    using assms run by (simp add: analyze_text_def primary_analysis_def Let_def)
  have "?k \<notin> fst ` set (cache self)" using assms(3) by (simp add: dict_get_None)
  then have stored: "dict_get (cache ?self1) ?k = Some r"
    by (simp add: dict_get_cache_store)
  let ?r2 = "r\<lparr>cache_hit := True, processing_time_ms := (t3 - t2) * 1000\<rparr>"
  let ?self2 = "?self1\<lparr>total_requests := total_requests ?self1 + 1,
                        cache_hits := cache_hits ?self1 + 1,
                        cache := dict_set (cache ?self1) ?k ?r2\<rparr>"
  have second: "analyze_text ?self1 t2 t3 tx ul True fm' pm = Inr (?r2, ?self2)"
    using stored by (simp add: analyze_text_def Let_def)
  have "cache_hits ?self2 = cache_hits self + 1" by simp
  with first r(2) stored second show ?thesis by blast
qed

theorem cache_hit_on_repeat_witness:
  "integrated_detector example_service = Some (\<lambda>t ul. Inr example_integrated) \<and>
   dict_get (cache example_service) (make_cache_key ''hola amigo'' None ''balanced'') = None \<and>
   map_sum id (\<lambda>out. cache_hit (fst out))
     (analyze_text example_service 0 1 ''hola amigo'' None True False ''balanced'') = Inr False \<and>
   map_sum id (\<lambda>out. cache_hit (fst out))
     (analyze_text
        (snd (projr (analyze_text example_service 0 1 ''hola amigo'' None True False ''balanced'')))
        2 3 ''hola amigo'' None True True ''balanced'') = Inr True"
proof -
  have a: "integrated_detector example_service = Some (\<lambda>t ul. Inr example_integrated)"
    by (simp add: example_service_def)
  have b: "(\<lambda>t ul. Inr example_integrated) ''hola amigo'' (None :: string list option)
             = (Inr example_integrated :: py_exception + IntegratedResult)"
    by simp
  have c: "dict_get (cache example_service) (make_cache_key ''hola amigo'' None ''balanced'') = None"
    by (simp add: example_service_def dict_get_def)
  from cache_hit_on_repeat[OF a b c, of 0 1 False 2 3 True] a c show ?thesis
    by auto
qed

text \<open>
  The claim as it was stated fails in two ways. A result of the mock tier is not stored:
  after the first call the cache is still empty, and the same call again is no hit. And
  the key keeps the user languages in the order given: the same two languages in the
  other order miss the entry of the first call.
\<close>

theorem cache_not_every_tier_counterexample:
  "map_sum id (\<lambda>out. (cache_hit (fst out), cache (snd out)))
     (analyze_text mock_only_service 0 1 ''hola amigo'' None True False ''balanced'')
     = Inr (False, []) \<and>
   map_sum id snd
     (analyze_text mock_only_service 0 1 ''hola amigo'' None True False ''balanced'')
     = Inr (mock_only_service\<lparr>total_requests := 1\<rparr>) \<and>
   map_sum id (\<lambda>out. cache_hit (fst out))
     (analyze_text (mock_only_service\<lparr>total_requests := 1\<rparr>)
        2 3 ''hola amigo'' None True False ''balanced'')
     = Inr False \<and>
   map_sum id (\<lambda>out. cache_hit (fst out))
     (analyze_text
        (snd (projr (analyze_text example_service 0 1 ''hola amigo''
                       (Some [''spanish'', ''english'']) True False ''balanced'')))
        2 3 ''hola amigo'' (Some [''english'', ''spanish'']) True False ''balanced'')
     = Inr False"
proof -
  let ?k1 = "make_cache_key ''hola amigo'' (Some [''spanish'', ''english'']) ''balanced''"
  let ?k2 = "make_cache_key ''hola amigo'' (Some [''english'', ''spanish'']) ''balanced''"
  have mock: "map_sum id (\<lambda>out. (cache_hit (fst out), cache (snd out)))
       (analyze_text mock_only_service 0 1 ''hola amigo'' None True False ''balanced'')
       = Inr (False, []) \<and>
     map_sum id snd
       (analyze_text mock_only_service 0 1 ''hola amigo'' None True False ''balanced'')
       = Inr (mock_only_service\<lparr>total_requests := 1\<rparr>) \<and>
     map_sum id (\<lambda>out. cache_hit (fst out))
       (analyze_text (mock_only_service\<lparr>total_requests := 1\<rparr>)
          2 3 ''hola amigo'' None True False ''balanced'')
       = Inr False"
    by (simp add: analyze_text_def fallback_analysis_def get_mock_result_def
          mock_only_service_def dict_get_def truthy_def Let_def)
  have keys: "?k1 \<noteq> ?k2" by (simp add: make_cache_key_def or_empty_def)
  obtain r1 s1 where first: "analyze_text example_service 0 1 ''hola amigo''
       (Some [''spanish'', ''english'']) True False ''balanced'' = Inr (r1, s1)"
    using analyze_text_total by blast
  have "cache example_service = []" by (simp add: example_service_def)
  with analyze_text_cache[OF first] have "cache s1 = [] \<or> cache s1 = [(?k1, r1)]"
    by (auto simp: cache_store_def dict_get_def Let_def)
  then have miss: "dict_get (cache s1) ?k2 = None"
    using keys by (auto simp: dict_get_def)
  obtain r2 s2 where second: "analyze_text s1 2 3 ''hola amigo''
       (Some [''english'', ''spanish'']) True False ''balanced'' = Inr (r2, s2)"
    using analyze_text_total by blast
  from analyze_text_cache[OF second] miss have "\<not> cache_hit r2" by auto
  then show ?thesis using mock first second by simp
qed

section \<open>The fallback chain and the mock result\<close>

text \<open>
  Every call of \<open>analyze_text\<close> returns (\<open>analyze_text_total\<close> above). The lemmas below
  follow the chain: a primary detector that raises hands over to the fallback analysis,
  a legacy detector that raises hands over to the mock result, and the enrichment stages
  cannot stop the primary result.
\<close>

lemma primary_failure_falls_back:
  assumes "integrated_detector self = Some detector" and "detector tx ul = Inl e"
      and "uc \<longrightarrow> dict_get (cache self) (make_cache_key tx ul pm) = None"
  shows "map_sum id fst (analyze_text self t0 t1 tx ul uc fm pm) =
         fallback_analysis (self\<lparr>total_requests := total_requests self + 1\<rparr>) tx ul t0 t1 fm"
  using assms fallback_analysis_total[of "self\<lparr>total_requests := total_requests self + 1\<rparr>" tx ul t0 t1 fm]
  by (auto simp: analyze_text_def primary_analysis_def Let_def split: sum.splits)

lemma legacy_failure_gives_mock:
  assumes "legacy_detector self = Some legacy" and "legacy tx ul = Inl e"
  shows "fallback_analysis self tx ul t0 t1 False = get_mock_result tx ul t0 t1 (Some (py_str e))"
  using assms by (simp add: fallback_analysis_def Let_def)

lemma enrichment_isolated:
  assumes "detector tx ul = Inr raw"
  shows "\<exists>r. primary_analysis self detector k tx ul t0 t1 False pm = Inr (r, self) \<and>
           primary_analysis (self\<lparr>context_detector := ctx, metrics_dashboard := dash\<rparr>)
             detector k tx ul t0 t1 False pm =
           Inr (r, self\<lparr>context_detector := ctx, metrics_dashboard := dash\<rparr>) \<and>
           (context_optimizer self = None \<longrightarrow>
              primary_analysis (self\<lparr>context_optimizer := Some (\<lambda>t. Inl e)\<rparr>)
                detector k tx ul t0 t1 False pm =
              Inr (r, self\<lparr>context_optimizer := Some (\<lambda>t. Inl e)\<rparr>))"
proof -
  obtain r where "convert_v2_1_2_result (SWITCHPRINT_VERSION self) raw (run_optimizer self tx)
                        tx ul t0 t1 pm = Inr r"
    using convert_v2_total by blast
  then show ?thesis
    using assms
    by (auto simp: primary_analysis_def Let_def SWITCHPRINT_VERSION_def run_optimizer_def)
qed

lemma get_mock_result_ignores_error:
  "get_mock_result tx ul t0 t1 (Some e) = get_mock_result tx ul t0 t1 None"
  by (simp add: get_mock_result_def)

text \<open>What the mock result holds, for every text and every list of user languages.\<close>

lemma mock_result_shape:
  "\<exists>r. get_mock_result tx ul t0 t1 err = Inr r \<and>
     tokens r = map (\<lambda>w. make_token w (if truthy ul then hd (or_empty ul) else ''english'') 0.85)
                  (py_split tx) \<and>
     map ph_language (phrases r) = [if truthy ul then hd (or_empty ul) else ''english''] \<and>
     map ph_words (phrases r) = [py_split tx] \<and>
     map ph_startIndex (phrases r) = [0] \<and>
     map ph_endIndex (phrases r) = [int (length (py_split tx)) - 1] \<and>
     confidence r = 0.85 \<and> switch_points r = [] \<and>
     detected_languages r = [if truthy ul then hd (or_empty ul) else ''english''] \<and>
     user_language_match r \<and> list_all ph_isUserLanguage (phrases r) \<and>
     version r = ''2.1.2'' \<and> quality_assessment r = ''unknown''"
  by (cases ul) (auto simp: get_mock_result_def truthy_def or_empty_def py_index_0 Let_def)

lemma convert_v2_version:
  "convert_v2_1_2_result ver raw opt tx ul t0 t1 pm = Inr r \<Longrightarrow> version r = ver"
  by (auto simp: convert_v2_1_2_result_def Let_def split: sum.splits)

text \<open>
  Claim C3, at a service whose legacy detector raises \<open>boom\<close>: the call returns the mock
  result, and that result is the one a service with no detector at all returns. No field
  of it holds the error; \<open>_get_mock_result\<close> never reads its parameter \<open>error\<close>.
\<close>

theorem mock_result_drops_error:
  "fallback_analysis failing_legacy_service ''hola amigo'' None 0 1 False =
     get_mock_result ''hola amigo'' None 0 1 (Some ''boom'') \<and>
   get_mock_result ''hola amigo'' None 0 1 (Some ''boom'') =
     get_mock_result ''hola amigo'' None 0 1 None \<and>
   map_sum id fst
     (analyze_text failing_legacy_service 0 1 ''hola amigo'' None True False ''balanced'') =
   map_sum id fst
     (analyze_text mock_only_service 0 1 ''hola amigo'' None True False ''balanced'')"
  by (simp add: analyze_text_def fallback_analysis_def get_mock_result_def
        failing_legacy_service_def mock_only_service_def dict_get_def truthy_def Let_def py_str_def)

text \<open>
  Claim C4, at a service with no detector: the version of the mock result is the default
  of the dataclass, \<open>2.1.2\<close>, the very tag a result of the primary tier carries.
\<close>

theorem mock_result_version:
  "map_sum id (\<lambda>out. version (fst out))
     (analyze_text mock_only_service 0 1 ''hola amigo'' None True False ''balanced'')
     = Inr ''2.1.2'' \<and>
   map_sum id (\<lambda>out. version (fst out))
     (analyze_text example_service 0 1 ''hola amigo'' None True False ''balanced'')
     = Inr ''2.1.2''"
proof -
  have mock: "map_sum id (\<lambda>out. version (fst out))
     (analyze_text mock_only_service 0 1 ''hola amigo'' None True False ''balanced'')
     = Inr ''2.1.2''"
    by (simp add: analyze_text_def fallback_analysis_def get_mock_result_def
          mock_only_service_def dict_get_def truthy_def Let_def)
  obtain r where r: "convert_v2_1_2_result ''2.1.2'' example_integrated None ''hola amigo'' None 0 1
                       ''balanced'' = Inr r"
    using convert_v2_total by blast
  then have "version r = ''2.1.2''" by (rule convert_v2_version)
  then have "map_sum id (\<lambda>out. version (fst out))
     (analyze_text example_service 0 1 ''hola amigo'' None True False ''balanced'')
     = Inr ''2.1.2''"
    using r
    by (simp add: analyze_text_def primary_analysis_def example_service_def dict_get_def Let_def
          SWITCHPRINT_VERSION_def run_optimizer_def)
  with mock show ?thesis by simp
qed

section \<open>Phrases and their indices\<close>

lemma convert_v2_partition:
  "\<exists>r. convert_v2_1_2_result ver raw opt tx ul t0 t1 pm = Inr r \<and>
        length (tokens r) = length (py_split tx) \<and>
        partitions_from 0 (tokens r) (phrases r)"
proof -
  from convert_v2_tokens[of ver raw opt tx ul t0 t1 pm] obtain r where
    r: "convert_v2_1_2_result ver raw opt tx ul t0 t1 pm = Inr r"
       "length (tokens r) = length (py_split tx)"
       "\<forall>j<length (py_split tx). tokens r ! j =
           make_token (py_split tx ! j)
             (language_v2 (getattr (ir_detected_languages raw) [''unknown''])
                (getattr (ir_switch_points raw) []) j)
             (getattr (ir_calibrated_confidence raw) (getattr (ir_original_confidence raw) 0.5))"
    by blast
  have "\<forall>t\<in>set (tokens r). tok_language t = tok_lang t"
    using r(2,3) by (auto simp: in_set_conv_nth make_token_def)
  moreover have "\<exists>c. phrases r = make_phrases ul c (tokens r)"
    using r(1) by (auto simp: convert_v2_1_2_result_def Let_def split: sum.splits)
  ultimately show ?thesis using r(1,2) make_phrases_partition by fastforce
qed

lemma convert_legacy_partition:
  "\<exists>r. convert_legacy_result raw tx ul t0 t1 = Inr r \<and>
        length (tokens r) = length (py_split tx) \<and>
        partitions_from 0 (tokens r) (phrases r)"
proof -
  from convert_legacy_tokens[of raw tx ul t0 t1] obtain r where
    r: "convert_legacy_result raw tx ul t0 t1 = Inr r"
       "length (tokens r) = length (py_split tx)"
       "\<forall>j<length (py_split tx). tokens r ! j =
           make_token (py_split tx ! j)
             (language_legacy (getattr (lr_detected_languages raw) [''unknown''])
                (legacy_points raw) j)
             (getattr (lr_confidence raw) 0.5)"
    by blast
  have "\<forall>t\<in>set (tokens r). tok_language t = tok_lang t"
    using r(2,3) by (auto simp: in_set_conv_nth make_token_def)
  moreover have "\<exists>c. phrases r = make_phrases ul c (tokens r)"
    using r(1) by (auto simp: convert_legacy_result_def Let_def split: sum.splits)
  ultimately show ?thesis using r(1,2) make_phrases_partition by fastforce
qed

text \<open>
  Both conversions cut the tokens into phrases as \<open>partitions_from\<close> says
  (\<open>convert_v2_partition\<close>, \<open>convert_legacy_partition\<close>). The worker does not.

  Claim C1, at the worker's detection of the text \<open>hello hola\<close>, an English word and a
  Spanish one: the two phrases are given the indices 0 to 1 and 0 to 1. A partition of
  the two tokens has the indices 0 to 0 and 1 to 1: \<open>_create_phrase\<close> sets every
  \<open>startIndex\<close> to 0 and every \<open>endIndex\<close> to the number of words.
\<close>

theorem worker_phrase_indices:
  "phrase_spans (detect_language example_worker (JStr ''hello hola'') (JArr [])) =
     [([''hello''], 0, 1), ([''hola''], 0, 1)]"
  by (simp add: detect_language_def detect_body_def example_worker_def example_model_def
        py_strip_def py_replace_def py_split_def py_isspace_def detected_of_def
        create_phrase_def worker_language_match_def phrase_spans_def code_to_name_def
        code_to_name_map_def Let_def)

section \<open>Switch points\<close>

lemma upt_0_Suc: "[0..<Suc n] = 0 # map Suc [0..<n]"
  by (simp add: upt_conv_Cons map_Suc_upt del: upt_Suc)

lemma worker_switch_points_index:
  "worker_switch_points ps =
     map (\<lambda>k. ph_endIndex (ps ! k))
       (filter (\<lambda>k. ph_language (ps ! k) \<noteq> ph_language (ps ! Suc k)) [0..<length ps - 1])"
proof (induction ps rule: worker_switch_points.induct)
  case (1 p q ps)
  have "[0..<length (p # q # ps) - 1] = 0 # map Suc [0..<length (q # ps) - 1]"
    using upt_0_Suc[of "length ps"] by simp
  then show ?case
    using 1 by (simp add: filter_map comp_def del: upt_Suc)
qed simp_all

lemma worker_switch_points_length: "length (worker_switch_points ps) \<le> length ps - 1"
proof -
  have "length (worker_switch_points ps) \<le> length [0..<length ps - 1]"
    unfolding worker_switch_points_index[of ps] length_map by (rule length_filter_le)
  then show ?thesis by simp
qed

text \<open>What a successful detection of the worker was made of.\<close>

lemma detect_language_parts:
  assumes "detect_language worker req langs = DetectionResponse d"
  shows "\<exists>m tx prediction toks.
           model worker = Some m \<and> req = JStr tx \<and>
           m (py_strip (py_replace [CHR 0x0D] '' '' (py_replace [CHR 0x0A] '' '' tx))) 5
             = Inr prediction \<and>
           word_tokens m
             (py_split (py_strip (py_replace [CHR 0x0D] '' '' (py_replace [CHR 0x0A] '' '' tx))))
             = Inr toks \<and>
           det_tokens d = toks \<and>
           (case toks of [] \<Rightarrow> Inr [] | t # rest \<Rightarrow> worker_phrases [t] rest) = Inr (det_phrases d) \<and>
           det_switchPoints d = worker_switch_points (det_phrases d) \<and>
           worker_language_match langs (detected_of prediction) = Inr (det_userLanguageMatch d)"
proof -
  from assms obtain m where m: "model worker = Some m"
    by (auto simp: detect_language_def split: option.splits)
  from assms m obtain tx where tx: "req = JStr tx"
    by (cases req) (auto simp: detect_language_def split: sum.splits)
  from assms m tx have body: "detect_body m (model_path worker) tx langs = Inr (DetectionResponse d)"
    by (auto simp: detect_language_def split: sum.splits)
  then show ?thesis
    using m tx
    by (auto simp: detect_body_def Let_def split: if_splits sum.splits)
qed

text \<open>
  Claim C2, as amended. Both conversions return the switch points the detector supplied,
  unchanged (the legacy conversion: the indices it reads off the detector's entries);
  they are not computed from the phrases. The worker's list holds, in the order of the
  phrases, the \<open>endIndex\<close> recorded for every phrase that is followed by a phrase of a
  different language, so it has at most one element fewer than there are phrases.
\<close>

theorem switch_points_origin:
  "(\<exists>r. convert_v2_1_2_result ver raw opt tx ul t0 t1 pm = Inr r \<and>
         switch_points r = getattr (ir_switch_points raw) []) \<and>
   (\<exists>r. convert_legacy_result lraw tx ul t0 t1 = Inr r \<and>
         switch_points r = legacy_points lraw) \<and>
   (detect_language worker req langs = DetectionResponse d \<longrightarrow>
      det_switchPoints d =
        map (\<lambda>k. ph_endIndex (det_phrases d ! k))
          (filter (\<lambda>k. ph_language (det_phrases d ! k) \<noteq> ph_language (det_phrases d ! Suc k))
             [0..<length (det_phrases d) - 1]) \<and>
      length (det_switchPoints d) \<le> length (det_phrases d) - 1)"
proof -
  obtain r where r: "convert_v2_1_2_result ver raw opt tx ul t0 t1 pm = Inr r"
    using convert_v2_total by blast
  then have a: "switch_points r = getattr (ir_switch_points raw) []"
    by (auto simp: convert_v2_1_2_result_def Let_def split: sum.splits)
  obtain r' where r': "convert_legacy_result lraw tx ul t0 t1 = Inr r'"
    using convert_legacy_tokens by blast
  then have b: "switch_points r' = legacy_points lraw"
    by (auto simp: convert_legacy_result_def legacy_points_def Let_def split: sum.splits)
  have c: "det_switchPoints d =
        map (\<lambda>k. ph_endIndex (det_phrases d ! k))
          (filter (\<lambda>k. ph_language (det_phrases d ! k) \<noteq> ph_language (det_phrases d ! Suc k))
             [0..<length (det_phrases d) - 1]) \<and>
      length (det_switchPoints d) \<le> length (det_phrases d) - 1"
    if "detect_language worker req langs = DetectionResponse d"
  proof -
    from detect_language_parts[OF that]
    have "det_switchPoints d = worker_switch_points (det_phrases d)" by blast
    then show ?thesis
      using worker_switch_points_index[of "det_phrases d"]
            worker_switch_points_length[of "det_phrases d"]
      by simp
  qed
  from r a r' b c show ?thesis by blast
qed

lemma detect_example_detection:
  "\<exists>d. detect_language example_worker (JStr ''hello hola'') (JArr [JStr ''Spanish''])
          = DetectionResponse d \<and>
        map ph_language (det_phrases d) = [''English'', ''Spanish''] \<and>
        map ph_endIndex (det_phrases d) = [1, 1] \<and>
        det_detectedLanguages d = [''English'']"
  by (simp add: detect_language_def detect_body_def example_worker_def example_model_def
        py_strip_def py_replace_def py_split_def py_isspace_def detected_of_def
        create_phrase_def worker_language_match_def code_to_name_def
        code_to_name_map_def Let_def normalize_language_def py_lower_def lower_char_def
        languages_map_def)

theorem switch_points_origin_witness:
  "map_sum id switch_points
     (convert_v2_1_2_result ''2.1.2'' example_integrated None ''hola amigo'' None 0 1 ''balanced'')
     = Inr [2, 3, 7] \<and>
   map_sum id switch_points (convert_legacy_result example_legacy ''hola amigo'' None 0 1)
     = Inr [2, 3] \<and>
   response_switch_points
     (detect_language example_worker (JStr ''hello hola'') (JArr [JStr ''Spanish''])) = [1]"
proof -
  obtain d where d: "detect_language example_worker (JStr ''hello hola'') (JArr [JStr ''Spanish''])
          = DetectionResponse d"
       "map ph_language (det_phrases d) = [''English'', ''Spanish'']"
       "map ph_endIndex (det_phrases d) = [1, 1]"
    using detect_example_detection by auto
  from d(2,3) obtain p q where pq: "det_phrases d = [p, q]" "ph_language p = ''English''"
      "ph_language q = ''Spanish''" "ph_endIndex p = 1"
    by (auto simp: map_eq_Cons_conv)
  from switch_points_origin[of "''2.1.2''" example_integrated None "''hola amigo''" None 0 1
      "''balanced''" example_legacy example_worker "JStr ''hello hola''" "JArr [JStr ''Spanish'']" d]
    d(1) pq
  show ?thesis
    by (auto simp: response_switch_points_def example_integrated_def example_legacy_def
          getattr_def legacy_points_def)
qed

text \<open>
  The claim as it was stated fails in the primary conversion. For a detector that
  reports English, then Spanish from the word of index 2 on, the phrases run from 0 to 1
  and from 2 to 4 and the switch point returned is the detector's 2, which is the first
  index of the second phrase and not the last index, 1, of the first. And a detector that
  reports one language and a switch point gives one phrase and one switch point.
\<close>

theorem switch_points_counterexample:
  "map_sum id
     (\<lambda>r. (map (\<lambda>p. (ph_language p, ph_startIndex p, ph_endIndex p)) (phrases r),
           switch_points r))
     (convert_v2_1_2_result ''2.1.2'' two_language_result None ''I like la playa grande'' None
        0 1 ''balanced'')
     = Inr ([(''english'', 0, 1), (''spanish'', 2, 4)], [2]) \<and>
   map_sum id (\<lambda>r. (length (phrases r), switch_points r))
     (convert_v2_1_2_result ''2.1.2'' single_language_result None ''hola amigo'' None 0 1
        ''balanced'')
     = Inr (1, [3])"
  by (simp add: convert_v2_1_2_result_def single_language_result_def two_language_result_def
        getattr_def Let_def tokens_single_def make_phrases_def make_token_def py_split_def
        py_isspace_def py_mod_def py_index_def finalize_phrase_def)

section \<open>User languages\<close>

lemma convert_v2_fields:
  assumes "convert_v2_1_2_result ver raw opt tx ul t0 t1 pm = Inr r"
  shows "user_language_match r =
           language_match ul (getattr (ir_detected_languages raw) [''unknown''])"
    and "phrases r =
           make_phrases ul
             (getattr (ir_calibrated_confidence raw) (getattr (ir_original_confidence raw) 0.5))
             (tokens r)"
  using assms by (auto simp: convert_v2_1_2_result_def Let_def split: sum.splits)

lemma convert_legacy_fields:
  assumes "convert_legacy_result raw tx ul t0 t1 = Inr r"
  shows "user_language_match r =
           language_match ul (getattr (lr_detected_languages raw) [''unknown''])"
    and "phrases r = make_phrases ul (getattr (lr_confidence raw) 0.5) (tokens r)"
  using assms by (auto simp: convert_legacy_result_def Let_def split: sum.splits)

lemma language_match_iff:
  "language_match ul dl = (\<exists>u\<in>set (or_empty ul). \<exists>d\<in>set dl. py_lower u = py_lower d)"
  by (cases ul) (auto simp: language_match_def truthy_def or_empty_def list_ex_iff)

lemma group_phrases_user:
  "\<forall>p\<in>set (group_phrases ul conf cp i ts).
     ph_isUserLanguage p = (truthy ul \<and> ph_language p \<in> set (or_empty ul))"
  by (induction ts arbitrary: cp i) (auto simp: finalize_phrase_def)

lemma make_phrases_user:
  "\<forall>p\<in>set (make_phrases ul conf ts).
     ph_isUserLanguage p = (truthy ul \<and> ph_language p \<in> set (or_empty ul))"
  using group_phrases_user by (cases ts) (auto simp: make_phrases_def)

lemma make_phrases_user_exact:
  "\<forall>p\<in>set (make_phrases ul conf ts). ph_isUserLanguage p = (ph_language p \<in> set (or_empty ul))"
  using make_phrases_user[of ul conf ts] by (cases ul) (auto simp: truthy_def or_empty_def)

lemma worker_phrases_flags:
  "worker_phrases cur ts = Inr ps \<Longrightarrow> \<forall>p\<in>set ps. \<not> ph_isUserLanguage p"
proof (induction ts arbitrary: cur ps)
  case Nil
  then show ?case
    by (auto simp: create_phrase_def Let_def split: if_splits sum.splits)
next
  case (Cons t ts)
  show ?case
  proof (cases "cur = []")
    case True
    then show ?thesis using Cons.prems by simp
  next
    case False
    show ?thesis
    proof (cases "tok_lang t = tok_lang (last cur)")
      case True
      then show ?thesis using Cons False by simp
    next
      case diff: False
      from Cons.prems False diff obtain p rest where
        p: "create_phrase cur = Inr p" "worker_phrases [t] ts = Inr rest" "ps = p # rest"
        by (auto split: sum.splits)
      have "\<not> ph_isUserLanguage p"
        using p(1) by (auto simp: create_phrase_def Let_def split: if_splits)
      then show ?thesis using Cons.IH[OF p(2)] p(3) by simp
    qed
  qed
qed

lemma normalize_all_strings: "normalize_all (map JStr ls) = Inr (map normalize_language ls)"
  by (induction ls) auto

lemma worker_language_match_strings:
  "worker_language_match (JArr (map JStr ls)) detected =
     Inr (ls \<noteq> [] \<and> detected \<noteq> [] \<and>
          dl_language (hd detected) \<in> set (map normalize_language ls))"
  by (auto simp: worker_language_match_def normalize_all_strings)

text \<open>
  Claim C5, as amended. In both conversions the result-level match is true exactly when
  some user language and some detected language are equal after \<open>lower\<close>, hence false
  for an empty list; a phrase is marked as a user language exactly when its language is
  one of the user languages as they were given, letter case included (Python's \<open>in\<close>),
  hence never for an empty list. The mock result has the
  match and the mark of its phrase true whatever the user languages are. The worker marks
  no phrase, and its match is true exactly when user languages were given and the code of
  the first language predicted for the whole text is among their normalized codes.
\<close>

theorem user_language_matching:
  "(\<exists>r. convert_v2_1_2_result ver raw opt tx ul t0 t1 pm = Inr r \<and>
      user_language_match r =
        (\<exists>u\<in>set (or_empty ul). \<exists>d\<in>set (getattr (ir_detected_languages raw) [''unknown'']).
            py_lower u = py_lower d) \<and>
      (\<forall>p\<in>set (phrases r). ph_isUserLanguage p = (ph_language p \<in> set (or_empty ul)))) \<and>
   (\<exists>r. convert_legacy_result lraw tx ul t0 t1 = Inr r \<and>
      user_language_match r =
        (\<exists>u\<in>set (or_empty ul). \<exists>d\<in>set (getattr (lr_detected_languages lraw) [''unknown'']).
            py_lower u = py_lower d) \<and>
      (\<forall>p\<in>set (phrases r). ph_isUserLanguage p = (ph_language p \<in> set (or_empty ul)))) \<and>
   (\<exists>r. get_mock_result tx ul t0 t1 err = Inr r \<and> user_language_match r \<and>
      (\<forall>p\<in>set (phrases r). ph_isUserLanguage p)) \<and>
   (detect_language worker (JStr wtx) (JArr (map JStr ls)) = DetectionResponse d \<longrightarrow>
      (\<forall>p\<in>set (det_phrases d). \<not> ph_isUserLanguage p) \<and>
      (\<exists>m prediction.
          model worker = Some m \<and>
          m (py_strip (py_replace [CHR 0x0D] '' '' (py_replace [CHR 0x0A] '' '' wtx))) 5
            = Inr prediction \<and>
          det_userLanguageMatch d =
            (ls \<noteq> [] \<and> detected_of prediction \<noteq> [] \<and>
             dl_language (hd (detected_of prediction)) \<in> set (map normalize_language ls))))"
proof -
  have v2: "\<exists>r. convert_v2_1_2_result ver raw opt tx ul t0 t1 pm = Inr r \<and>
      user_language_match r =
        (\<exists>u\<in>set (or_empty ul). \<exists>d\<in>set (getattr (ir_detected_languages raw) [''unknown'']).
            py_lower u = py_lower d) \<and>
      (\<forall>p\<in>set (phrases r). ph_isUserLanguage p = (ph_language p \<in> set (or_empty ul)))"
  proof -
    obtain r where r: "convert_v2_1_2_result ver raw opt tx ul t0 t1 pm = Inr r"
      using convert_v2_total by blast
    note m = convert_v2_fields(1)[OF r]
    have "\<forall>p\<in>set (phrases r). ph_isUserLanguage p = (ph_language p \<in> set (or_empty ul))"
      unfolding convert_v2_fields(2)[OF r] by (rule make_phrases_user_exact)
    then show ?thesis using r m language_match_iff by blast
  qed
  have legacy: "\<exists>r. convert_legacy_result lraw tx ul t0 t1 = Inr r \<and>
      user_language_match r =
        (\<exists>u\<in>set (or_empty ul). \<exists>d\<in>set (getattr (lr_detected_languages lraw) [''unknown'']).
            py_lower u = py_lower d) \<and>
      (\<forall>p\<in>set (phrases r). ph_isUserLanguage p = (ph_language p \<in> set (or_empty ul)))"
  proof -
    obtain r where r: "convert_legacy_result lraw tx ul t0 t1 = Inr r"
      using convert_legacy_tokens by blast
    note m = convert_legacy_fields(1)[OF r]
    have "\<forall>p\<in>set (phrases r). ph_isUserLanguage p = (ph_language p \<in> set (or_empty ul))"
      unfolding convert_legacy_fields(2)[OF r] by (rule make_phrases_user_exact)
    then show ?thesis using r m language_match_iff by blast
  qed
  have mock: "\<exists>r. get_mock_result tx ul t0 t1 err = Inr r \<and> user_language_match r \<and>
      (\<forall>p\<in>set (phrases r). ph_isUserLanguage p)"
    using mock_result_shape[of tx ul t0 t1 err] by (auto simp: list_all_iff)
  have worker: "(\<forall>p\<in>set (det_phrases d). \<not> ph_isUserLanguage p) \<and>
      (\<exists>m prediction.
          model worker = Some m \<and>
          m (py_strip (py_replace [CHR 0x0D] '' '' (py_replace [CHR 0x0A] '' '' wtx))) 5
            = Inr prediction \<and>
          det_userLanguageMatch d =
            (ls \<noteq> [] \<and> detected_of prediction \<noteq> [] \<and>
             dl_language (hd (detected_of prediction)) \<in> set (map normalize_language ls)))"
    if "detect_language worker (JStr wtx) (JArr (map JStr ls)) = DetectionResponse d"
  proof -
    from detect_language_parts[OF that] obtain m prediction toks where
      parts: "model worker = Some m"
        "m (py_strip (py_replace [CHR 0x0D] '' '' (py_replace [CHR 0x0A] '' '' wtx))) 5
           = Inr prediction"
        "(case toks of [] \<Rightarrow> Inr [] | t # rest \<Rightarrow> worker_phrases [t] rest) = Inr (det_phrases d)"
        "worker_language_match (JArr (map JStr ls)) (detected_of prediction)
           = Inr (det_userLanguageMatch d)"
      by blast
    have "\<forall>p\<in>set (det_phrases d). \<not> ph_isUserLanguage p"
      using parts(3) worker_phrases_flags by (cases toks) auto
    moreover have "det_userLanguageMatch d =
            (ls \<noteq> [] \<and> detected_of prediction \<noteq> [] \<and>
             dl_language (hd (detected_of prediction)) \<in> set (map normalize_language ls))"
      using parts(4) by (simp add: worker_language_match_strings)
    ultimately show ?thesis using parts(1,2) by blast
  qed
  from v2 legacy mock worker show ?thesis by blast
qed

lemma detect_example_flags:
  "\<exists>d. detect_language example_worker (JStr ''hello hola'') (JArr (map JStr [''English'']))
          = DetectionResponse d \<and>
        det_userLanguageMatch d \<and>
        map ph_language (det_phrases d) = [''English'', ''Spanish''] \<and>
        map ph_isUserLanguage (det_phrases d) = [False, False]"
  by (simp add: detect_language_def detect_body_def example_worker_def example_model_def
        py_strip_def py_replace_def py_split_def py_isspace_def detected_of_def
        create_phrase_def worker_language_match_def code_to_name_def
        code_to_name_map_def Let_def normalize_language_def py_lower_def lower_char_def
        languages_map_def)

theorem user_language_matching_witness:
  "map_sum id (\<lambda>r. (user_language_match r, map (\<lambda>p. (ph_language p, ph_isUserLanguage p)) (phrases r)))
     (convert_v2_1_2_result ''2.1.2'' example_integrated None ''hola amigo''
        (Some [''SPANISH'', ''english'']) 0 1 ''balanced'') = Inr (True, [(''english'', True)]) \<and>
   map_sum id user_language_match
     (convert_legacy_result example_legacy ''hola amigo'' (Some [''SPANISH'', ''english'']) 0 1)
     = Inr True \<and>
   map_sum id user_language_match
     (get_mock_result ''hola amigo'' (Some [''SPANISH'', ''english'']) 0 1 None) = Inr True \<and>
   (case response_detection
           (detect_language example_worker (JStr ''hello hola'') (JArr (map JStr [''English'']))) of
      Some d \<Rightarrow> det_userLanguageMatch d \<and> list_all (\<lambda>p. \<not> ph_isUserLanguage p) (det_phrases d)
    | None \<Rightarrow> False)"
proof -
  obtain d where d: "detect_language example_worker (JStr ''hello hola'')
        (JArr (map JStr [''English''])) = DetectionResponse d" "det_userLanguageMatch d"
    using detect_example_flags by auto
  have lower: "(\<exists>u\<in>set (or_empty (Some [''SPANISH'', ''english''])).
                 \<exists>l\<in>set (getattr (ir_detected_languages example_integrated) [''unknown'']).
                   py_lower u = py_lower l) = True"
      "(\<exists>u\<in>set (or_empty (Some [''SPANISH'', ''english''])).
                 \<exists>l\<in>set (getattr (lr_detected_languages example_legacy) [''unknown'']).
                   py_lower u = py_lower l) = True"
    by (simp_all add: or_empty_def getattr_def example_integrated_def example_legacy_def
          py_lower_def lower_char_def)
  have langs: "map_sum id (\<lambda>r. map ph_language (phrases r))
     (convert_v2_1_2_result ''2.1.2'' example_integrated None ''hola amigo''
        (Some [''SPANISH'', ''english'']) 0 1 ''balanced'') = Inr [''english'']"
    by (simp add: convert_v2_1_2_result_def example_integrated_def getattr_def Let_def
          make_phrases_def make_token_def py_split_def py_isspace_def py_mod_def py_index_def
          finalize_phrase_def)
  note t = user_language_matching[of "''2.1.2''" example_integrated None "''hola amigo''"
      "Some [''SPANISH'', ''english'']" 0 1 "''balanced''" example_legacy None
      example_worker "''hello hola''" "[''English'']" d]
  from t obtain r1 where r1:
    "convert_v2_1_2_result ''2.1.2'' example_integrated None ''hola amigo''
        (Some [''SPANISH'', ''english'']) 0 1 ''balanced'' = Inr r1"
    "user_language_match r1 =
       (\<exists>u\<in>set (or_empty (Some [''SPANISH'', ''english''])).
          \<exists>l\<in>set (getattr (ir_detected_languages example_integrated) [''unknown'']).
            py_lower u = py_lower l)"
    "\<forall>p\<in>set (phrases r1).
       ph_isUserLanguage p = (ph_language p \<in> set (or_empty (Some [''SPANISH'', ''english''])))"
    by blast
  from langs r1(1) have "map ph_language (phrases r1) = [''english'']" by simp
  then obtain p where p: "phrases r1 = [p]" "ph_language p = ''english''"
    by (auto simp: map_eq_Cons_conv)
  then have "ph_isUserLanguage p" using r1(3) by (simp add: or_empty_def)
  then have first: "map (\<lambda>p. (ph_language p, ph_isUserLanguage p)) (phrases r1) = [(''english'', True)]"
    using p by simp
  from t obtain r2 where r2:
    "convert_legacy_result example_legacy ''hola amigo'' (Some [''SPANISH'', ''english'']) 0 1 = Inr r2"
    "user_language_match r2 =
       (\<exists>u\<in>set (or_empty (Some [''SPANISH'', ''english''])).
          \<exists>l\<in>set (getattr (lr_detected_languages example_legacy) [''unknown'']).
            py_lower u = py_lower l)"
    by blast
  from t obtain r3 where r3:
    "get_mock_result ''hola amigo'' (Some [''SPANISH'', ''english'']) 0 1 None = Inr r3"
    "user_language_match r3"
    by blast
  from t d(1) have w: "\<forall>p\<in>set (det_phrases d). \<not> ph_isUserLanguage p" by blast
  show ?thesis
    using r1(1,2) first r2 r3 w d unfolding lower
    by (simp add: response_detection_def list_all_iff)
qed

text \<open>
  The claim as it was stated fails in every tier. With an empty list of user languages
  the mock result still has the match and the mark of its phrase true. The worker leaves
  the phrase in English unmarked although English is the user language. And the primary
  conversion, given the user language \<open>English\<close> and the detected language
  \<open>english\<close>, reports the match and leaves the phrase unmarked: the mark compares the
  strings as they are.
\<close>

theorem user_language_counterexample:
  "map_sum id (\<lambda>out. (user_language_match (fst out), map ph_isUserLanguage (phrases (fst out))))
     (analyze_text mock_only_service 0 1 ''hola amigo'' (Some []) True False ''balanced'')
     = Inr (True, [True]) \<and>
   map_option (\<lambda>d. map (\<lambda>p. (ph_language p, ph_isUserLanguage p)) (det_phrases d))
     (response_detection
        (detect_language example_worker (JStr ''hello hola'') (JArr (map JStr [''English'']))))
     = Some [(''English'', False), (''Spanish'', False)] \<and>
   map_sum id (\<lambda>r. (user_language_match r, map (\<lambda>p. (ph_language p, ph_isUserLanguage p)) (phrases r)))
     (convert_v2_1_2_result ''2.1.2'' example_integrated None ''hola amigo''
        (Some [''English'']) 0 1 ''balanced'')
     = Inr (True, [(''english'', False)])"
proof -
  have "map_sum id (\<lambda>out. (user_language_match (fst out), map ph_isUserLanguage (phrases (fst out))))
     (analyze_text mock_only_service 0 1 ''hola amigo'' (Some []) True False ''balanced'')
     = Inr (True, [True])"
    by (simp add: analyze_text_def fallback_analysis_def get_mock_result_def
          mock_only_service_def dict_get_def truthy_def Let_def)
  moreover obtain d where "detect_language example_worker (JStr ''hello hola'')
        (JArr (map JStr [''English''])) = DetectionResponse d"
      "map ph_language (det_phrases d) = [''English'', ''Spanish'']"
      "map ph_isUserLanguage (det_phrases d) = [False, False]"
    using detect_example_flags by auto
  moreover have "map_sum id
       (\<lambda>r. (user_language_match r, map (\<lambda>p. (ph_language p, ph_isUserLanguage p)) (phrases r)))
     (convert_v2_1_2_result ''2.1.2'' example_integrated None ''hola amigo''
        (Some [''English'']) 0 1 ''balanced'')
     = Inr (True, [(''english'', False)])"
    by (simp add: convert_v2_1_2_result_def example_integrated_def getattr_def Let_def
          make_phrases_def make_token_def py_split_def py_isspace_def py_mod_def py_index_def
          finalize_phrase_def language_match_def truthy_def or_empty_def py_lower_def
          lower_char_def)
  ultimately show ?thesis
    by (auto simp: response_detection_def map_eq_Cons_conv)
qed

section \<open>The request loop of the worker\<close>

lemma handle_line_blank:
  "py_strip line = [] \<Longrightarrow> handle_line worker json_loads (line, t) = []"
  by (simp add: handle_line_def)

lemma handle_line_one_response:
  "py_strip line \<noteq> [] \<Longrightarrow> \<exists>resp. handle_line worker json_loads (line, t) = [Print resp, Flush]"
  by (auto simp: handle_line_def Let_def split: sum.splits)

lemma handle_line_raises:
  assumes "py_strip line \<noteq> []" and "json_loads (py_strip line) = Inl (cls, msg)"
  shows "handle_line worker json_loads (line, t) =
           [Print (ErrorResponse
              ((if cls = JSONDecodeError then ''Invalid JSON: '' else ''Processing failed: '') @ msg)),
            Flush]"
  using assms by (simp add: handle_line_def process_request_def Let_def py_str_def)

lemma handle_line_no_text:
  assumes "py_strip line \<noteq> []"
      and "json_loads (py_strip line) = Inr (JObj kvs)"
      and "case map_of kvs ''text'' of None \<Rightarrow> True | Some v \<Rightarrow> \<not> json_truthy v"
  shows "handle_line worker json_loads (line, t) = [Print (ErrorResponse ''No text provided''), Flush]"
  using assms
  by (auto simp: handle_line_def process_request_def request_get_def Let_def split: option.splits)

lemma handle_line_detects:
  assumes "py_strip line \<noteq> []"
      and "json_loads (py_strip line) = Inr (JObj kvs)"
      and "map_of kvs ''text'' = Some v" and "json_truthy v"
  shows "handle_line worker json_loads (line, t) =
           [Print (set_timeMs
                     (detect_language worker v
                        (case map_of kvs ''languages'' of None \<Rightarrow> JArr [] | Some l \<Rightarrow> l)) t),
            Flush]"
  using assms
  by (auto simp: handle_line_def process_request_def request_get_def Let_def split: option.splits)

lemma handle_line_no_object:
  assumes "py_strip line \<noteq> []"
      and "json_loads (py_strip line) = Inr v" and "\<forall>kvs. v \<noteq> JObj kvs"
  shows "handle_line worker json_loads (line, t) =
           [Print (ErrorResponse (''Processing failed: '' @ py_str (no_attribute v ''get''))), Flush]"
  using assms
  by (cases v) (auto simp: handle_line_def process_request_def request_get_def Let_def
                  no_attribute_def)

lemma request_loop_lines:
  "request_loop worker json_loads (lines_of inputs) =
     (concat (map (handle_line worker json_loads) inputs), None)"
  by (induction inputs) (auto simp: lines_of_def Let_def)

lemma request_loop_read_raises:
  "request_loop worker json_loads (lines_of inputs @ ReadRaises e # rest) =
     (concat (map (handle_line worker json_loads) inputs), Some 1)"
  by (induction inputs) (auto simp: lines_of_def Let_def)

lemma prints_of_lines:
  "length (filter is_print (concat (map (handle_line worker json_loads) inputs))) =
     length (filter (\<lambda>i. py_strip (fst i) \<noteq> []) inputs)"
proof (induction inputs)
  case Nil
  then show ?case by simp
next
  case (Cons input rest)
  obtain line t where input: "input = (line, t)" by (cases input)
  show ?case
  proof (cases "py_strip line = []")
    case True
    then show ?thesis using Cons input by (simp add: handle_line_blank)
  next
    case False
    then obtain resp where "handle_line worker json_loads (line, t) = [Print resp, Flush]"
      using handle_line_one_response by blast
    then show ?thesis using False Cons input by simp
  qed
qed

lemma main_ready_then_loop:
  "main (Some worker) json_loads inputs =
     ([Print (Ready (model_path worker)), Flush] @ fst (request_loop worker json_loads inputs),
      snd (request_loop worker json_loads inputs))"
  by (simp add: main_def Let_def)

text \<open>
  Claim C9, as amended. A line that is blank after \<open>strip\<close> adds nothing to the output.
  Every other line that was read adds exactly one printed response followed by a flush.
  When \<open>json.loads\<close> raises \<open>JSONDecodeError\<close> the response is the \<open>Invalid JSON\<close> error
  with the parser's message; when it raises anything else, or returns a value that is no
  object, the response is a \<open>Processing failed\<close> error. For an object with no text or an
  empty one it is \<open>No text provided\<close>, and for an object with a text it is the answer of
  \<open>detect_language\<close> with the measured time. The output for lines read one after the other
  is the output of each in order, so a response is printed and flushed before the next
  line is read, and there are as many printed responses as lines that are not blank. When
  reading a line raises, the loop ends with exit status 1 and serves no later line.
\<close>

theorem request_loop_responses:
  "(py_strip line = [] \<longrightarrow> handle_line worker json_loads (line, t) = []) \<and>
   (py_strip line \<noteq> [] \<longrightarrow>
      (\<exists>resp. handle_line worker json_loads (line, t) = [Print resp, Flush])) \<and>
   (py_strip line \<noteq> [] \<and> json_loads (py_strip line) = Inl (cls, msg) \<longrightarrow>
      handle_line worker json_loads (line, t) =
        [Print (ErrorResponse
           ((if cls = JSONDecodeError then ''Invalid JSON: '' else ''Processing failed: '') @ msg)),
         Flush]) \<and>
   (py_strip line \<noteq> [] \<and> json_loads (py_strip line) = Inr v \<and> (\<forall>kvs. v \<noteq> JObj kvs) \<longrightarrow>
      handle_line worker json_loads (line, t) =
        [Print (ErrorResponse (''Processing failed: '' @ py_str (no_attribute v ''get''))), Flush]) \<and>
   (py_strip line \<noteq> [] \<and> json_loads (py_strip line) = Inr (JObj kvs) \<and>
    (map_of kvs ''text'' = None \<or> map_of kvs ''text'' = Some (JStr [])) \<longrightarrow>
      handle_line worker json_loads (line, t) =
        [Print (ErrorResponse ''No text provided''), Flush]) \<and>
   (py_strip line \<noteq> [] \<and> json_loads (py_strip line) = Inr (JObj kvs) \<and>
    map_of kvs ''text'' = Some txt \<and> json_truthy txt \<longrightarrow>
      handle_line worker json_loads (line, t) =
        [Print (set_timeMs
                  (detect_language worker txt
                     (case map_of kvs ''languages'' of None \<Rightarrow> JArr [] | Some l \<Rightarrow> l)) t),
         Flush]) \<and>
   request_loop worker json_loads (lines_of inputs) =
     (concat (map (handle_line worker json_loads) inputs), None) \<and>
   request_loop worker json_loads (lines_of inputs @ ReadRaises e # rest) =
     (concat (map (handle_line worker json_loads) inputs), Some 1) \<and>
   length (filter is_print (fst (request_loop worker json_loads (lines_of inputs)))) =
     length (filter (\<lambda>i. py_strip (fst i) \<noteq> []) inputs)"
proof -
  have no_text: "handle_line worker json_loads (line, t) =
        [Print (ErrorResponse ''No text provided''), Flush]"
    if "py_strip line \<noteq> []" "json_loads (py_strip line) = Inr (JObj kvs)"
       "map_of kvs ''text'' = None \<or> map_of kvs ''text'' = Some (JStr [])"
    using that by (intro handle_line_no_text[of line json_loads kvs]) auto
  have count: "length (filter is_print (fst (request_loop worker json_loads (lines_of inputs)))) =
     length (filter (\<lambda>i. py_strip (fst i) \<noteq> []) inputs)"
    by (simp add: request_loop_lines prints_of_lines)
  show ?thesis
  proof (intro conjI impI)
    show "handle_line worker json_loads (line, t) = []" if "py_strip line = []"
      using that by (rule handle_line_blank)
    show "\<exists>resp. handle_line worker json_loads (line, t) = [Print resp, Flush]"
      if "py_strip line \<noteq> []"
      using that by (rule handle_line_one_response)
    show "handle_line worker json_loads (line, t) =
        [Print (ErrorResponse
           ((if cls = JSONDecodeError then ''Invalid JSON: '' else ''Processing failed: '') @ msg)),
         Flush]"
      if "py_strip line \<noteq> [] \<and> json_loads (py_strip line) = Inl (cls, msg)"
      using that handle_line_raises by (elim conjE)
    show "handle_line worker json_loads (line, t) =
        [Print (ErrorResponse (''Processing failed: '' @ py_str (no_attribute v ''get''))), Flush]"
      if "py_strip line \<noteq> [] \<and> json_loads (py_strip line) = Inr v \<and> (\<forall>kvs. v \<noteq> JObj kvs)"
      using that handle_line_no_object by (elim conjE)
    show "handle_line worker json_loads (line, t) =
        [Print (ErrorResponse ''No text provided''), Flush]"
      if "py_strip line \<noteq> [] \<and> json_loads (py_strip line) = Inr (JObj kvs) \<and>
          (map_of kvs ''text'' = None \<or> map_of kvs ''text'' = Some (JStr []))"
      using that no_text by (elim conjE)
    show "handle_line worker json_loads (line, t) =
        [Print (set_timeMs
                  (detect_language worker txt
                     (case map_of kvs ''languages'' of None \<Rightarrow> JArr [] | Some l \<Rightarrow> l)) t),
         Flush]"
      if "py_strip line \<noteq> [] \<and> json_loads (py_strip line) = Inr (JObj kvs) \<and>
          map_of kvs ''text'' = Some txt \<and> json_truthy txt"
      using that handle_line_detects by (elim conjE)
    show "request_loop worker json_loads (lines_of inputs) =
       (concat (map (handle_line worker json_loads) inputs), None)"
      by (rule request_loop_lines)
    show "request_loop worker json_loads (lines_of inputs @ ReadRaises e # rest) =
       (concat (map (handle_line worker json_loads) inputs), Some 1)"
      by (rule request_loop_read_raises)
    show "length (filter is_print (fst (request_loop worker json_loads (lines_of inputs)))) =
       length (filter (\<lambda>i. py_strip (fst i) \<noteq> []) inputs)"
      by (rule count)
  qed
qed

lemma strip_examples:
  "py_strip ''  '' = []" "py_strip ''oops'' = ''oops''" "py_strip ''{}'' = ''{}''"
  "py_strip [CHR 0x0A] = []" "py_strip '' 5 '' = ''5''"
  by (simp_all add: py_strip_def py_isspace_def)

lemma strip_brackets: "py_strip (replicate n CHR ''['') = replicate n CHR ''[''"
  by (simp add: py_strip_def py_isspace_def)

lemma loads_examples:
  "example_loads ''oops'' = Inl (JSONDecodeError, ''Expecting value: line 1 column 1 (char 0)'')"
  "example_loads ''{}'' = Inr (JObj [])" "example_loads ''5'' = Inr (JInt 5)"
  "example_loads (replicate 1000 CHR ''['') =
     Inl (RecursionError,
          ''maximum recursion depth exceeded while decoding a JSON array from a unicode string'')"
  by (simp_all add: example_loads_def list_all_iff)

theorem request_loop_responses_witness:
  "request_loop example_worker example_loads
     (lines_of [(''  '', 0), (''oops'', 0), (''{}'', 0), ([CHR 0x0A], 0), ('' 5 '', 0)]) =
     ([Print (ErrorResponse ''Invalid JSON: Expecting value: line 1 column 1 (char 0)''), Flush,
       Print (ErrorResponse ''No text provided''), Flush,
       Print (ErrorResponse (''Processing failed: '' @ py_str (no_attribute (JInt 5) ''get''))), Flush],
      None)"
proof -
  note t = request_loop_responses[of _ example_worker example_loads 0]
  have blank1: "handle_line example_worker example_loads (''  '', 0) = []"
    using t[of "''  ''"] strip_examples by simp
  have blank2: "handle_line example_worker example_loads ([CHR 0x0A], 0) = []"
    using t[of "[CHR 0x0A]"] strip_examples by simp
  have bad: "handle_line example_worker example_loads (''oops'', 0) =
      [Print (ErrorResponse ''Invalid JSON: Expecting value: line 1 column 1 (char 0)''), Flush]"
    using t[of "''oops''" JSONDecodeError "''Expecting value: line 1 column 1 (char 0)''"]
      strip_examples loads_examples by simp
  have empty: "handle_line example_worker example_loads (''{}'', 0) =
      [Print (ErrorResponse ''No text provided''), Flush]"
    using t[of "''{}''" _ _ _ "[]"] strip_examples loads_examples by simp
  have five: "handle_line example_worker example_loads ('' 5 '', 0) =
      [Print (ErrorResponse (''Processing failed: '' @ py_str (no_attribute (JInt 5) ''get''))), Flush]"
    using t[of "'' 5 ''" _ _ "JInt 5"] strip_examples loads_examples by simp
  have "request_loop example_worker example_loads
          (lines_of [(''  '', 0), (''oops'', 0), (''{}'', 0), ([CHR 0x0A], 0), ('' 5 '', 0)]) =
        (concat (map (handle_line example_worker example_loads)
           [(''  '', 0), (''oops'', 0), (''{}'', 0), ([CHR 0x0A], 0), ('' 5 '', 0)]), None)"
    using t[of "[]" _ _ _ _ _ "[(''  '', 0), (''oops'', 0), (''{}'', 0), ([CHR 0x0A], 0), ('' 5 '', 0)]"]
    by blast
  then show ?thesis
    by (simp add: blank1 blank2 bad empty five)
qed

text \<open>
  The claim as it was stated fails on a line that is no JSON and on which the parser
  raises something other than \<open>JSONDecodeError\<close>: a thousand opening brackets are
  answered with \<open>Processing failed\<close>, not with \<open>Invalid JSON\<close>. And a read that raises
  ends the loop with status 1: the line after it gets no response.
\<close>

theorem request_loop_counterexample:
  "request_loop example_worker example_loads [Line (replicate 1000 CHR ''['') 0, Line ''{}'' 0] =
     ([Print (ErrorResponse
         (''Processing failed: '' @
          ''maximum recursion depth exceeded while decoding a JSON array from a unicode string'')),
       Flush,
       Print (ErrorResponse ''No text provided''), Flush],
      None) \<and>
   request_loop example_worker example_loads
     [ReadRaises (UnicodeDecodeError, ''invalid start byte''), Line ''{}'' 0] = ([], Some 1)"
proof -
  have ne: "py_strip (replicate 1000 CHR ''['') \<noteq> []" by (simp add: strip_brackets)
  have deep: "handle_line example_worker example_loads (replicate 1000 CHR ''['', 0) =
      [Print (ErrorResponse
         (''Processing failed: '' @
          ''maximum recursion depth exceeded while decoding a JSON array from a unicode string'')),
       Flush]"
    using handle_line_raises[OF ne, of example_loads RecursionError
        "''maximum recursion depth exceeded while decoding a JSON array from a unicode string''"
        example_worker 0]
      loads_examples(4)
    by (simp only: strip_brackets exc_class.distinct if_False)
  have empty: "handle_line example_worker example_loads (''{}'', 0) =
      [Print (ErrorResponse ''No text provided''), Flush]"
    using handle_line_no_text[of "''{}''" example_loads "[]" example_worker 0]
      strip_examples loads_examples by simp
  show ?thesis
    by (simp only: request_loop.simps Let_def deep empty fst_conv snd_conv append.simps
          append_Nil2 simp_thms)
qed

section \<open>The size of the cache\<close>

text \<open>A miss that the primary detector answers stores; a hit changes the entry in place.\<close>

lemma analyze_text_store:
  assumes "integrated_detector self = Some detector"
      and "detector tx ul = Inr raw"
      and "dict_get (cache self) (make_cache_key tx ul pm) = None"
  shows "\<exists>r. analyze_text self t0 t1 tx ul True fm pm =
               Inr (r, self\<lparr>total_requests := total_requests self + 1,
                           cache := cache_store (cache self) (make_cache_key tx ul pm) r\<rparr>)"
proof -
  obtain r where "convert_v2_1_2_result (SWITCHPRINT_VERSION self) raw (run_optimizer self tx)
                        tx ul t0 t1 pm = Inr r"
    using convert_v2_total by blast
  then have "convert_v2_1_2_result (SWITCHPRINT_VERSION (self\<lparr>total_requests := total_requests self + 1\<rparr>))
               raw (run_optimizer (self\<lparr>total_requests := total_requests self + 1\<rparr>) tx)
               tx ul t0 t1 pm = Inr r"
    by (simp add: SWITCHPRINT_VERSION_def run_optimizer_def)
  then have "analyze_text self t0 t1 tx ul True fm pm =
               Inr (r, self\<lparr>total_requests := total_requests self + 1,
                           cache := cache_store (cache self) (make_cache_key tx ul pm) r\<rparr>)"
    using assms by (simp add: analyze_text_def primary_analysis_def Let_def)
  then show ?thesis by blast
qed

lemma analyze_text_hit:
  assumes "dict_get (cache self) (make_cache_key tx ul pm) = Some stored"
  shows "analyze_text self t0 t1 tx ul True fm pm =
           Inr (stored\<lparr>cache_hit := True, processing_time_ms := (t1 - t0) * 1000\<rparr>,
                self\<lparr>total_requests := total_requests self + 1,
                     cache_hits := cache_hits self + 1,
                     cache := dict_set (cache self) (make_cache_key tx ul pm)
                                (stored\<lparr>cache_hit := True,
                                        processing_time_ms := (t1 - t0) * 1000\<rparr>)\<rparr>)"
  using assms by (simp add: analyze_text_def Let_def)

text \<open>
  Claim C7. Take a service that started with an empty cache and has handled any calls;
  its cache has distinct keys and at most 1000 entries. A call with \<open>use_cache\<close> that
  misses and that the primary detector answers stores its result: at the end of the
  dictionary when fewer than 1000 entries were held, and otherwise, the store having
  made 1001 entries, one batch removes the hundred entries inserted first and the new
  entry stays last. A call that hits keeps the keys and their order, so the order is that
  of insertion and not of access. After any call the cache holds at most 1000 entries.
\<close>

theorem cache_eviction_fifo:
  assumes "fresh self0"
  shows "length (cache (foldl apply_operation self0 ops)) \<le> 1000 \<and>
         distinct (map fst (cache (foldl apply_operation self0 ops))) \<and>
         (integrated_detector (foldl apply_operation self0 ops) = Some detector \<and>
          detector tx ul = Inr raw \<and>
          dict_get (cache (foldl apply_operation self0 ops)) (make_cache_key tx ul pm) = None \<longrightarrow>
            (\<exists>r self'.
               analyze_text (foldl apply_operation self0 ops) t0 t1 tx ul True fm pm = Inr (r, self') \<and>
               cache self' =
                 (if length (cache (foldl apply_operation self0 ops)) < 1000
                  then cache (foldl apply_operation self0 ops) @ [(make_cache_key tx ul pm, r)]
                  else drop 100 (cache (foldl apply_operation self0 ops)) @
                       [(make_cache_key tx ul pm, r)]))) \<and>
         (dict_get (cache (foldl apply_operation self0 ops)) (make_cache_key tx ul pm) = Some stored \<longrightarrow>
            (\<exists>r self'.
               analyze_text (foldl apply_operation self0 ops) t0 t1 tx ul True fm pm = Inr (r, self') \<and>
               map fst (cache self') = map fst (cache (foldl apply_operation self0 ops)))) \<and>
         (analyze_text (foldl apply_operation self0 ops) t2 t3 tx' ul' uc fm' pm' = Inr (r', self'') \<longrightarrow>
            length (cache self'') \<le> 1000 \<and> distinct (map fst (cache self'')))"
proof -
  let ?s = "foldl apply_operation self0 ops"
  let ?k = "make_cache_key tx ul pm"
  have ok: "cache_ok ?s" using assms by (simp add: fresh_cache_ok reachable_cache_ok)
  have store: "\<exists>r self'. analyze_text ?s t0 t1 tx ul True fm pm = Inr (r, self') \<and>
               cache self' = (if length (cache ?s) < 1000 then cache ?s @ [(?k, r)]
                              else drop 100 (cache ?s) @ [(?k, r)])"
    if h: "integrated_detector ?s = Some detector" "detector tx ul = Inr raw"
          "dict_get (cache ?s) ?k = None"
  proof -
    from analyze_text_store[OF h, of t0 t1 fm] obtain r where
      r: "analyze_text ?s t0 t1 tx ul True fm pm =
            Inr (r, ?s\<lparr>total_requests := total_requests ?s + 1,
                       cache := cache_store (cache ?s) ?k r\<rparr>)"
      by blast
    have "?k \<notin> fst ` set (cache ?s)" using h(3) by (simp add: dict_get_None)
    then have "cache_store (cache ?s) ?k r =
                 (if length (cache ?s) < 1000 then cache ?s @ [(?k, r)]
                  else drop 100 (cache ?s) @ [(?k, r)])"
      using ok cache_store_ok[of "cache ?s" ?k r] by (auto simp: cache_ok_def)
    then show ?thesis using r by auto
  qed
  have hit: "\<exists>r self'. analyze_text ?s t0 t1 tx ul True fm pm = Inr (r, self') \<and>
               map fst (cache self') = map fst (cache ?s)"
    if h: "dict_get (cache ?s) ?k = Some stored"
  proof -
    have "?k \<in> fst ` set (cache ?s)" using h dict_get_None[of "cache ?s" ?k] by auto
    then show ?thesis
      using analyze_text_hit[OF h, of t0 t1 fm] by (auto simp: dict_set_present)
  qed
  have any: "length (cache self'') \<le> 1000 \<and> distinct (map fst (cache self''))"
    if "analyze_text ?s t2 t3 tx' ul' uc fm' pm' = Inr (r', self'')"
    using analyze_text_cache_ok[OF ok that] by (simp add: cache_ok_def)
  from ok store hit any show ?thesis
    unfolding cache_ok_def by blast
qed

text \<open>A thousand and one calls with different texts reach the limit and pass it.\<close>

lemma fill_key_inj: "fill_key i = fill_key j \<Longrightarrow> i = j"
proof -
  assume "fill_key i = fill_key j"
  then have "fill_text i = fill_text j"
    by (simp add: fill_key_def make_cache_key_def or_empty_def)
  then have "length (fill_text i) = length (fill_text j)" by simp
  then show ?thesis by (simp add: fill_text_def)
qed

lemma apply_operation_detector:
  "integrated_detector (apply_operation self op) = integrated_detector self"
proof (cases op)
  case (Analyze t0 t1 tx ul uc fm pm)
  obtain r self' where a: "analyze_text self t0 t1 tx ul uc fm pm = Inr (r, self')"
    using analyze_text_total by blast
  then have "integrated_detector self' = integrated_detector self"
    by (auto simp: analyze_text_def primary_analysis_def Let_def
             split: option.splits sum.splits if_splits)
  then show ?thesis using Analyze a by simp
next
  case ClearCache
  then show ?thesis by (simp add: clear_cache_def)
qed

lemma fill_ops_keys:
  "n \<le> 1000 \<Longrightarrow>
     map fst (cache (foldl apply_operation example_service (fill_ops n))) = map fill_key [0..<n] \<and>
     integrated_detector (foldl apply_operation example_service (fill_ops n)) =
       Some (\<lambda>t ul. Inr example_integrated)"
proof (induction n)
  case 0
  then show ?case by (simp add: fill_ops_def example_service_def)
next
  case (Suc n)
  let ?s = "foldl apply_operation example_service (fill_ops n)"
  have ih: "map fst (cache ?s) = map fill_key [0..<n]"
      "integrated_detector ?s = Some (\<lambda>t ul. Inr example_integrated)"
    using Suc by auto
  have ok: "cache_ok ?s"
    by (intro reachable_cache_ok fresh_cache_ok) (simp add: fresh_def example_service_def)
  have len: "length (cache ?s) = n" using ih(1) by (metis length_map length_upt minus_nat.diff_0)
  have "fill_key n \<notin> set (map fill_key [0..<n])" by (auto dest: fill_key_inj)
  then have absent: "fill_key n \<notin> fst ` set (cache ?s)" using ih(1) by (metis set_map)
  then have miss: "dict_get (cache ?s) (make_cache_key (fill_text n) None ''balanced'') = None"
    by (simp add: dict_get_None fill_key_def)
  have det: "(\<lambda>t ul. Inr example_integrated) (fill_text n) (None :: string list option)
               = (Inr example_integrated :: py_exception + IntegratedResult)"
    by simp
  from analyze_text_store[OF ih(2) det miss, of 0 1 False] obtain r where
    r: "analyze_text ?s 0 1 (fill_text n) None True False ''balanced'' =
          Inr (r, ?s\<lparr>total_requests := total_requests ?s + 1,
                     cache := cache_store (cache ?s) (fill_key n) r\<rparr>)"
    by (auto simp: fill_key_def)
  have "cache_store (cache ?s) (fill_key n) r = cache ?s @ [(fill_key n, r)]"
    using ok absent len Suc.prems cache_store_ok[of "cache ?s" "fill_key n" r]
    by (simp add: cache_ok_def)
  then have step: "apply_operation ?s (Analyze 0 1 (fill_text n) None True False ''balanced'') =
      ?s\<lparr>total_requests := total_requests ?s + 1, cache := cache ?s @ [(fill_key n, r)]\<rparr>"
    using r by simp
  have ops: "fill_ops (Suc n) = fill_ops n @ [Analyze 0 1 (fill_text n) None True False ''balanced'']"
    by (simp add: fill_ops_def)
  show ?case
    unfolding ops using step ih by simp
qed

lemma keys_after_eviction:
  assumes "map fst c = map f [0..<n]" and "m \<le> n"
  shows "map fst (drop m c @ [(f n, r)]) = map f [m..<Suc n]"
proof -
  have "map fst (drop m c) = drop m (map fst c)" by (simp add: drop_map)
  then have "map fst (drop m c) = map f [m..<n]"
    using assms(1) by (simp add: drop_map drop_upt)
  then show ?thesis using assms(2) by simp
qed

theorem cache_eviction_fifo_witness:
  "fresh example_service \<and>
   map fst (cache (foldl apply_operation example_service (fill_ops 1000))) = map fill_key [0..<1000] \<and>
   map_sum id (\<lambda>out. map fst (cache (snd out)))
     (analyze_text (foldl apply_operation example_service (fill_ops 1000))
        0 1 (fill_text 1000) None True False ''balanced'')
     = Inr (map fill_key [100..<Suc 1000])"
proof -
  let ?s = "foldl apply_operation example_service (fill_ops 1000)"
  have f: "fresh example_service" by (simp add: fresh_def example_service_def)
  have keys: "map fst (cache ?s) = map fill_key [0..<1000]"
    and det: "integrated_detector ?s = Some (\<lambda>t ul. Inr example_integrated)"
    using fill_ops_keys[of 1000] by blast+
  have len: "length (cache ?s) = 1000" using keys by (metis length_map length_upt minus_nat.diff_0)
  have "fill_key 1000 \<notin> fill_key ` {0..<1000}" by (auto dest: fill_key_inj)
  then have "fill_key 1000 \<notin> fst ` set (cache ?s)"
    using keys by (metis set_map set_upt)
  then have miss: "dict_get (cache ?s) (make_cache_key (fill_text 1000) None ''balanced'') = None"
    by (simp only: dict_get_None fill_key_def not_False_eq_True)
  have ans: "(\<lambda>t ul. Inr example_integrated) (fill_text 1000) (None :: string list option)
               = (Inr example_integrated :: py_exception + IntegratedResult)"
    by (rule refl)
  note t = cache_eviction_fifo[OF f, of "fill_ops 1000" "\<lambda>t ul. Inr example_integrated"
      "fill_text 1000" None example_integrated "''balanced''" 0 1 False]
  from t det ans miss have "\<exists>r self'.
       analyze_text ?s 0 1 (fill_text 1000) None True False ''balanced'' = Inr (r, self') \<and>
       cache self' =
         (if length (cache ?s) < 1000
          then cache ?s @ [(make_cache_key (fill_text 1000) None ''balanced'', r)]
          else drop 100 (cache ?s) @ [(make_cache_key (fill_text 1000) None ''balanced'', r)])"
    by blast
  then obtain r self' where
    r: "analyze_text ?s 0 1 (fill_text 1000) None True False ''balanced'' = Inr (r, self')"
       "cache self' = drop 100 (cache ?s) @ [(fill_key 1000, r)]"
    unfolding len fill_key_def[symmetric] by auto
  have "map fst (cache self') = map fill_key [100..<Suc 1000]"
    unfolding r(2) by (rule keys_after_eviction[OF keys]) simp
  then have "map_sum id (\<lambda>out. map fst (cache (snd out)))
      (analyze_text ?s 0 1 (fill_text 1000) None True False ''balanced'')
      = Inr (map fill_key [100..<Suc 1000])"
    unfolding r(1) by (simp only: map_sum.simps snd_conv)
  with f keys show ?thesis by (intro conjI)
qed

end
